theory Spec2Isabelle
  imports
    Main
    "HOL-Library.Char_ord"
    "HOL-Library.List_Lexorder"
    "HOL-Library.Multiset"
    "HOL-Library.AList"
begin

section \<open>JavaScript values\<close>

text \<open>
  The connector \<^verbatim>\<open>connectCurrentRefinedValues.js\<close> inspects its options with lodash's
  type predicates, so the options are modelled as dynamically typed values. A function is
  a reference (an identity); an array is given by its elements; an object by the list of
  its properties in the order they were added, a plain one as \<open>JObject\<close> and one made by
  another constructor as \<open>JInstance\<close>, with its identity. \<^verbatim>\<open>new String(s)\<close> and
  \<^verbatim>\<open>new Boolean(b)\<close> are objects of their own, \<open>JStringObject\<close> and \<open>JBooleanObject\<close>: lodash
  counts them as a string and a boolean, while \<^verbatim>\<open>===\<close> tells them from the primitive and
  every object is truthy. Numbers are integers: the connector only ever compares a number
  with \<^verbatim>\<open>-1\<close>. The order in which JavaScript enumerates properties is not modelled; nothing
  here reads it.
\<close>

datatype jsval =
    JUndefined
  | JNull
  | JBoolean bool
  | JNumber int
  | JString string
  | JFunction nat
  | JInstance nat "(string \<times> jsval) list"
  | JStringObject nat string
  | JBooleanObject nat bool
  | JArray "jsval list"
  | JObject "(string \<times> jsval) list"

text \<open>Truthiness, as \<^verbatim>\<open>&&\<close> and \<^verbatim>\<open>if\<close> apply it.\<close>

fun toBoolean :: "jsval \<Rightarrow> bool" where
  "toBoolean JUndefined = False"
| "toBoolean JNull = False"
| "toBoolean (JBoolean b) = b"
| "toBoolean (JNumber n) = (n \<noteq> 0)"
| "toBoolean (JString s) = (s \<noteq> [])"
| "toBoolean (JFunction f) = True"
| "toBoolean (JInstance i ps) = True"
| "toBoolean (JStringObject i s) = True"
| "toBoolean (JBooleanObject i b) = True"
| "toBoolean (JArray vs) = True"
| "toBoolean (JObject ps) = True"

text \<open>
  The lodash predicates the connector imports. \<open>isString\<close> and \<open>isBoolean\<close> hold of the
  primitive and of the object that wraps one.
\<close>

definition isUndefined :: "jsval \<Rightarrow> bool" where
  "isUndefined v = (case v of JUndefined \<Rightarrow> True | _ \<Rightarrow> False)"

definition isBoolean :: "jsval \<Rightarrow> bool" where
  "isBoolean v = (case v of JBoolean b \<Rightarrow> True | JBooleanObject i b \<Rightarrow> True | _ \<Rightarrow> False)"

definition isString :: "jsval \<Rightarrow> bool" where
  "isString v = (case v of JString s \<Rightarrow> True | JStringObject i s \<Rightarrow> True | _ \<Rightarrow> False)"

definition isArray :: "jsval \<Rightarrow> bool" where
  "isArray v = (case v of JArray vs \<Rightarrow> True | _ \<Rightarrow> False)"

definition isPlainObject :: "jsval \<Rightarrow> bool" where
  "isPlainObject v = (case v of JObject ps \<Rightarrow> True | _ \<Rightarrow> False)"

definition isFunction :: "jsval \<Rightarrow> bool" where
  "isFunction v = (case v of JFunction f \<Rightarrow> True | _ \<Rightarrow> False)"

definition isEmpty :: "'a list \<Rightarrow> bool" where
  "isEmpty xs = (length xs = 0)"

text \<open>
  Property read \<^verbatim>\<open>v.k\<close>. An object yields the stored value or \<^verbatim>\<open>undefined\<close>. The connector
  reads \<^verbatim>\<open>attributes\<close> and \<^verbatim>\<open>onlyListedAttributes\<close> from the options, where a primitive, a
  wrapped primitive, an array or a function has no such property, and \<^verbatim>\<open>name\<close>, \<^verbatim>\<open>label\<close>, \<^verbatim>\<open>template\<close> and
  \<^verbatim>\<open>transformData\<close> only from values that passed \<open>isPlainObject\<close>. Reading from \<^verbatim>\<open>null\<close>
  throws; the one place where that can happen is the destructuring of the options,
  handled in \<open>connectCurrentRefinedValues\<close>.
\<close>

definition getProp :: "jsval \<Rightarrow> string \<Rightarrow> jsval" where
  "getProp v k =
     (case v of
        JObject ps \<Rightarrow> (case map_of ps k of Some x \<Rightarrow> x | None \<Rightarrow> JUndefined)
      | JInstance i ps \<Rightarrow> (case map_of ps k of Some x \<Rightarrow> x | None \<Rightarrow> JUndefined)
      | _ \<Rightarrow> JUndefined)"

text \<open>A destructuring default \<^verbatim>\<open>{k = d}\<close> applies exactly when the value is \<^verbatim>\<open>undefined\<close>.\<close>

definition withDefault :: "jsval \<Rightarrow> jsval \<Rightarrow> jsval" where
  "withDefault v d = (if v = JUndefined then d else v)"

text \<open>The elements of an array value (lodash iterates nothing for a non-array here).\<close>

definition elements :: "jsval \<Rightarrow> jsval list" where
  "elements v = (case v of JArray vs \<Rightarrow> vs | _ \<Rightarrow> [])"

text \<open>
  An object that the connector builds itself, by \<^verbatim>\<open>res[key] = value\<close> on \<^verbatim>\<open>{}\<close>. Assignment adds
  or overwrites a property, except for the key \<^verbatim>\<open>__proto__\<close>: there the setter of
  \<^verbatim>\<open>Object.prototype\<close> runs, which makes an object or \<^verbatim>\<open>null\<close> the prototype of \<^verbatim>\<open>res\<close>, ignores
  any other value, and adds no property. The values of \<open>JObject\<close> stand for ordinary
  objects, whose own prototype chain ends in \<^verbatim>\<open>Object.prototype\<close>, so the setter stays in
  reach after it has run.
\<close>

record builtObject =
  ownProperties :: "(string \<times> jsval) list"
  prototypeSet :: "jsval option"

definition isObjectOrNull :: "jsval \<Rightarrow> bool" where
  "isObjectOrNull v =
     (case v of
        JNull \<Rightarrow> True | JObject ps \<Rightarrow> True | JInstance i ps \<Rightarrow> True
      | JStringObject i s \<Rightarrow> True | JBooleanObject i b \<Rightarrow> True | JArray vs \<Rightarrow> True
      | JFunction f \<Rightarrow> True | _ \<Rightarrow> False)"

definition assignProperty :: "builtObject \<Rightarrow> string \<Rightarrow> jsval \<Rightarrow> builtObject" where
  "assignProperty obj k v =
     (if k = ''__proto__''
      then (if isObjectOrNull v then obj\<lparr>prototypeSet := Some v\<rparr> else obj)
      else obj\<lparr>ownProperties := AList.update k v (ownProperties obj)\<rparr>)"

text \<open>
  The property key a value is turned into by \<^verbatim>\<open>res[value]\<close>; applied to values that passed
  \<open>isString\<close>.
\<close>

fun propertyKey :: "jsval \<Rightarrow> string" where
  "propertyKey (JString s) = s"
| "propertyKey (JStringObject i s) = s"
| "propertyKey v = []"

section \<open>Refinements and the collaborators\<close>

text \<open>
  A refinement as \<^verbatim>\<open>getRefinements\<close> of \<^verbatim>\<open>lib/utils.js\<close> hands it out. The numeric value is
  only passed through, so its carrier \<open>'n\<close> is left open.
\<close>

record 'n refinement =
  type :: string
  attributeName :: string
  name :: string
  operator :: "string option"
  numericValue :: "'n option"

text \<open>
  The first argument of \<^verbatim>\<open>getRefinements\<close>: \<^verbatim>\<open>init\<close> passes the literal \<^verbatim>\<open>{}\<close>, \<^verbatim>\<open>render\<close> the
  results object of the host.
\<close>

datatype 'res resultsArg = EmptyObject | SearchResults 'res

text \<open>
  What the connector consumes but does not define: the two helpers of \<^verbatim>\<open>lib/utils.js\<close>
  and the removal methods of the search-parameters object \<open>'st\<close>, each returning a new
  search-parameters value.
\<close>

record ('res, 'st, 'n) collaborators =
  getRefinements :: "'res resultsArg \<Rightarrow> 'st \<Rightarrow> 'n refinement list"
  clearRefinementsFromState :: "'st \<Rightarrow> jsval list \<Rightarrow> 'st"
  removeFacetRefinement :: "'st \<Rightarrow> string \<Rightarrow> string \<Rightarrow> 'st"
  removeDisjunctiveFacetRefinement :: "'st \<Rightarrow> string \<Rightarrow> string \<Rightarrow> 'st"
  clearRefinements :: "'st \<Rightarrow> string \<Rightarrow> 'st"
  removeExcludeRefinement :: "'st \<Rightarrow> string \<Rightarrow> string \<Rightarrow> 'st"
  removeNumericRefinement :: "'st \<Rightarrow> string \<Rightarrow> string option \<Rightarrow> 'n option \<Rightarrow> 'st"
  removeTagRefinement :: "'st \<Rightarrow> string \<Rightarrow> 'st"

section \<open>Sorting and filtering the refinements\<close>

text \<open>
  \<^verbatim>\<open>Array.prototype.indexOf\<close>: the first position holding the value, \<^verbatim>\<open>-1\<close> if none. The
  configured attribute names are the values of the \<^verbatim>\<open>name\<close> properties as they were given,
  so a list of \<open>jsval\<close>; the attribute name of a refinement is a primitive string, and
  \<^verbatim>\<open>indexOf\<close> finds it among them by \<^verbatim>\<open>===\<close>, which for a primitive string is equality with
  \<open>JString\<close> of it.
\<close>

fun indexOfFrom :: "'a list \<Rightarrow> 'a \<Rightarrow> int \<Rightarrow> int" where
  "indexOfFrom [] x i = -1"
| "indexOfFrom (y # ys) x i = (if y = x then i else indexOfFrom ys x (i + 1))"

definition indexOf :: "'a list \<Rightarrow> 'a \<Rightarrow> int" where
  "indexOf xs x = indexOfFrom xs x 0"

definition getRestrictedIndexForSort :: "jsval list \<Rightarrow> string list \<Rightarrow> string \<Rightarrow> int" where
  "getRestrictedIndexForSort attributeNames otherAttributeNames attrName =
     (let idx = indexOf attributeNames (JString attrName)
      in if idx \<noteq> -1 then idx
         else int (length attributeNames) + indexOf otherAttributeNames attrName)"

text \<open>
  Strings compare character by character, a proper prefix first, as \<^verbatim>\<open><\<close> compares code units
  in JavaScript; the characters here are the 256 of \<open>char\<close>.
\<close>

definition compareRefinements ::
  "jsval list \<Rightarrow> string list \<Rightarrow> 'n refinement \<Rightarrow> 'n refinement \<Rightarrow> int" where
  "compareRefinements attributeNames otherAttributeNames a b =
     (let idxa = getRestrictedIndexForSort attributeNames otherAttributeNames (attributeName a);
          idxb = getRestrictedIndexForSort attributeNames otherAttributeNames (attributeName b)
      in if idxa = idxb
         then (if name a = name b then 0 else if name a < name b then -1 else 1)
         else if idxa < idxb then -1 else 1)"

text \<open>
  The callback of the \<^verbatim>\<open>reduce\<close> that collects the unlisted attribute names. Its second
  test is \<^verbatim>\<open>res.indexOf(refinement.attributeName === -1)\<close>: the comparison of the name with
  \<^verbatim>\<open>-1\<close> is evaluated first, and its boolean result is what is searched for in \<^verbatim>\<open>res\<close>; the
  index found is then used as a truth value.
\<close>

definition collectOtherAttributeName ::
  "jsval list \<Rightarrow> string list \<Rightarrow> 'n refinement \<Rightarrow> string list" where
  "collectOtherAttributeName attributeNames res refinement =
     (if indexOf attributeNames (JString (attributeName refinement)) = -1 \<and>
         toBoolean (JNumber (indexOf (map JString res)
                       (JBoolean (JString (attributeName refinement) = JNumber (-1)))))
      then res @ [attributeName refinement]
      else res)"

definition otherAttributeNames :: "jsval list \<Rightarrow> 'n refinement list \<Rightarrow> string list" where
  "otherAttributeNames attributeNames refinements =
     foldl (collectOtherAttributeName attributeNames) [] refinements"

text \<open>
  \<^verbatim>\<open>Array.prototype.sort\<close> with a comparator, as a stable insertion sort: an element goes
  before the first element it does not compare greater than.
\<close>

fun insertSorted :: "('a \<Rightarrow> 'a \<Rightarrow> int) \<Rightarrow> 'a \<Rightarrow> 'a list \<Rightarrow> 'a list" where
  "insertSorted cmp x [] = [x]"
| "insertSorted cmp x (y # ys) =
     (if cmp x y \<le> 0 then x # y # ys else y # insertSorted cmp x ys)"

definition arraySort :: "('a \<Rightarrow> 'a \<Rightarrow> int) \<Rightarrow> 'a list \<Rightarrow> 'a list" where
  "arraySort cmp xs = foldr (insertSorted cmp) xs []"

text \<open>
  The last argument is used as a condition only; \<open>onlyListedAttributes\<close> here is its
  truthiness.
\<close>

definition getFilteredRefinements ::
  "('res, 'st, 'n) collaborators \<Rightarrow> 'res resultsArg \<Rightarrow> 'st \<Rightarrow> jsval list \<Rightarrow> bool
     \<Rightarrow> 'n refinement list" where
  "getFilteredRefinements lib results state attributeNames onlyListedAttributes =
     (let refinements = getRefinements lib results state;
          otherNames = otherAttributeNames attributeNames refinements;
          refinements = arraySort (compareRefinements attributeNames otherNames) refinements
      in if onlyListedAttributes \<and> \<not> isEmpty attributeNames
         then filter
                (\<lambda>refinement. indexOf attributeNames (JString (attributeName refinement)) \<noteq> -1)
                refinements
         else refinements)"

text \<open>
  The ordering in words: the primary key of a refinement is the position of its attribute
  name in the configured names followed by the other names, the secondary key its \<open>name\<close>.
  \<open>position\<close> is the first index holding the value (the length if there is none);
  \<open>firstSeen\<close> is the index of the first raw refinement on an attribute.
\<close>

fun position :: "'a list \<Rightarrow> 'a \<Rightarrow> nat" where
  "position [] x = 0"
| "position (y # ys) x = (if y = x then 0 else Suc (position ys x))"

definition sortKey :: "jsval list \<Rightarrow> string list \<Rightarrow> string \<Rightarrow> nat" where
  "sortKey names others attrName = position (names @ map JString others) (JString attrName)"

definition sortsBefore ::
  "jsval list \<Rightarrow> string list \<Rightarrow> 'n refinement \<Rightarrow> 'n refinement \<Rightarrow> bool" where
  "sortsBefore names others a b \<longleftrightarrow>
     sortKey names others (attributeName a) < sortKey names others (attributeName b) \<or>
     (sortKey names others (attributeName a) = sortKey names others (attributeName b) \<and>
      name a \<le> name b)"

definition firstSeen :: "'n refinement list \<Rightarrow> string \<Rightarrow> nat" where
  "firstSeen raw attrName = position (map attributeName raw) attrName"

text \<open>
  The collection of the unlisted names with the membership test that the design notes
  give as the repaired one, \<^verbatim>\<open>res.indexOf(name) === -1\<close>, and \<open>getFilteredRefinements\<close>
  over it. Nothing in the connector calls these; they are what the source is compared with.
\<close>

definition collectOtherAttributeName_dedup ::
  "jsval list \<Rightarrow> string list \<Rightarrow> 'n refinement \<Rightarrow> string list" where
  "collectOtherAttributeName_dedup attributeNames res refinement =
     (if indexOf attributeNames (JString (attributeName refinement)) = -1 \<and>
         indexOf res (attributeName refinement) = -1
      then res @ [attributeName refinement]
      else res)"

definition otherAttributeNames_dedup :: "jsval list \<Rightarrow> 'n refinement list \<Rightarrow> string list" where
  "otherAttributeNames_dedup attributeNames refinements =
     foldl (collectOtherAttributeName_dedup attributeNames) [] refinements"

definition getFilteredRefinements_dedup ::
  "('res, 'st, 'n) collaborators \<Rightarrow> 'res resultsArg \<Rightarrow> 'st \<Rightarrow> jsval list \<Rightarrow> bool
     \<Rightarrow> 'n refinement list" where
  "getFilteredRefinements_dedup lib results state attributeNames onlyListedAttributes =
     (let refinements = getRefinements lib results state;
          otherNames = otherAttributeNames_dedup attributeNames refinements;
          refinements = arraySort (compareRefinements attributeNames otherNames) refinements
      in if onlyListedAttributes \<and> \<not> isEmpty attributeNames
         then filter
                (\<lambda>refinement. indexOf attributeNames (JString (attributeName refinement)) \<noteq> -1)
                refinements
         else refinements)"

section \<open>Arrays as objects: the in-place sort\<close>

text \<open>
  \<^verbatim>\<open>refinements.sort(...)\<close> sorts the array that \<^verbatim>\<open>getRefinements\<close> returned, in place; lodash's
  \<^verbatim>\<open>filter\<close> builds a new array. To see what the function can change, arrays are put into a
  store: a cell per array, and a counter for the next free cell.
\<close>

record 'n arrayStore =
  cells :: "nat \<Rightarrow> 'n refinement list option"
  nextCell :: nat

definition allocArray :: "'n refinement list \<Rightarrow> 'n arrayStore \<Rightarrow> nat \<times> 'n arrayStore" where
  "allocArray xs h =
     (nextCell h, h\<lparr>cells := (cells h)(nextCell h \<mapsto> xs), nextCell := Suc (nextCell h)\<rparr>)"

definition readArray :: "'n arrayStore \<Rightarrow> nat \<Rightarrow> 'n refinement list" where
  "readArray h a = (case cells h a of None \<Rightarrow> [] | Some xs \<Rightarrow> xs)"

definition sortInPlace ::
  "('n refinement \<Rightarrow> 'n refinement \<Rightarrow> int) \<Rightarrow> nat \<Rightarrow> 'n arrayStore \<Rightarrow> 'n arrayStore" where
  "sortInPlace cmp a h = h\<lparr>cells := (cells h)(a \<mapsto> arraySort cmp (readArray h a))\<rparr>"

text \<open>
  \<open>getFilteredRefinements\<close> over the store. The collaborator \<open>getRefs\<close> returns the
  reference of the array it hands out and the store as it leaves it; the result is the
  reference of the returned array and the store after the call.
\<close>

definition getFilteredRefinements_inStore ::
  "('res resultsArg \<Rightarrow> 'st \<Rightarrow> 'n arrayStore \<Rightarrow> nat \<times> 'n arrayStore) \<Rightarrow> 'res resultsArg \<Rightarrow> 'st
     \<Rightarrow> jsval list \<Rightarrow> bool \<Rightarrow> 'n arrayStore \<Rightarrow> nat \<times> 'n arrayStore" where
  "getFilteredRefinements_inStore getRefs results state attributeNames onlyListedAttributes h =
     (case getRefs results state h of
        (refinements, h1) \<Rightarrow>
          let otherNames = otherAttributeNames attributeNames (readArray h1 refinements);
              h2 = sortInPlace (compareRefinements attributeNames otherNames) refinements h1
          in if onlyListedAttributes \<and> \<not> isEmpty attributeNames
             then allocArray
                    (filter (\<lambda>refinement.
                               indexOf attributeNames (JString (attributeName refinement))
                                 \<noteq> -1)
                       (readArray h2 refinements))
                    h2
             else (refinements, h2))"



section \<open>Clearing one refinement\<close>

datatype error =
    UsageError
  | NullDestructuring
  | UnsupportedRefinementType string

text \<open>
  A method call on a search-parameters object, and what a call leaves behind for the
  host to observe: the method calls on the state, the bound functions created, the
  invocation of the rendering function with the options object and the first-render
  flag, and \<^verbatim>\<open>setState\<close> and \<^verbatim>\<open>search\<close> on a helper. A bound function has its own identity
  and remembers what it was bound to: \<open>ClearRefinementsAndSearch helper names\<close> stands for
  \<^verbatim>\<open>clearRefinementsAndSearch.bind(null, helper, restrictedTo)\<close> and
  \<open>ClearRefinement helper refinement\<close> for \<^verbatim>\<open>clearRefinement.bind(null, helper, refinement)\<close>.
  A helper is a reference to an object whose \<^verbatim>\<open>state\<close> field the world holds. The helpers
  of \<^verbatim>\<open>lib/utils.js\<close> and \<^verbatim>\<open>createURL\<close> are functions of their arguments and leave no event.
\<close>

datatype 'n stateCall =
    RemoveFacetRefinement string string
  | RemoveDisjunctiveFacetRefinement string string
  | ClearRefinements string
  | RemoveExcludeRefinement string string
  | RemoveNumericRefinement string "string option" "'n option"
  | RemoveTagRefinement string

datatype 'n target =
    ClearRefinementsAndSearch nat "jsval list"
  | ClearRefinement nat "'n refinement"

datatype 'n boundFunction = BoundFunction nat "'n target"

datatype 'n vmval =
    VUndefined
  | VObject builtObject
  | VFunction "'n boundFunction"
  | VFunctions "'n boundFunction list"
  | VString string
  | VStrings "string list"
  | VRefinements "'n refinement list"
  | VInstance nat
  | VValue jsval

datatype ('st, 'n) event =
    StateCall 'st "'n stateCall"
  | BindCall "'n boundFunction"
  | RenderCall "(string \<times> 'n vmval) list" bool
  | SetState nat 'st
  | Search nat

record ('st, 'n) world =
  trace :: "('st, 'n) event list"
  nextFunctionId :: nat
  helperState :: "nat \<Rightarrow> 'st"

fun stateMethod :: "('res, 'st, 'n) collaborators \<Rightarrow> 'st \<Rightarrow> 'n stateCall \<Rightarrow> 'st" where
  "stateMethod lib state (RemoveFacetRefinement a v) = removeFacetRefinement lib state a v"
| "stateMethod lib state (RemoveDisjunctiveFacetRefinement a v) =
     removeDisjunctiveFacetRefinement lib state a v"
| "stateMethod lib state (ClearRefinements a) = clearRefinements lib state a"
| "stateMethod lib state (RemoveExcludeRefinement a v) = removeExcludeRefinement lib state a v"
| "stateMethod lib state (RemoveNumericRefinement a op v) =
     removeNumericRefinement lib state a op v"
| "stateMethod lib state (RemoveTagRefinement v) = removeTagRefinement lib state v"

definition callState ::
  "('res, 'st, 'n) collaborators \<Rightarrow> 'st \<Rightarrow> 'n stateCall \<Rightarrow> ('st, 'n) world
     \<Rightarrow> (error + 'st) \<times> ('st, 'n) world" where
  "callState lib state call w =
     (Inr (stateMethod lib state call), w\<lparr>trace := trace w @ [StateCall state call]\<rparr>)"

definition clearRefinementFromState ::
  "('res, 'st, 'n) collaborators \<Rightarrow> 'st \<Rightarrow> 'n refinement \<Rightarrow> ('st, 'n) world
     \<Rightarrow> (error + 'st) \<times> ('st, 'n) world" where
  "clearRefinementFromState lib state refinement w =
     (if type refinement = ''facet'' then
        callState lib state
          (RemoveFacetRefinement (attributeName refinement) (name refinement)) w
      else if type refinement = ''disjunctive'' then
        callState lib state
          (RemoveDisjunctiveFacetRefinement (attributeName refinement) (name refinement)) w
      else if type refinement = ''hierarchical'' then
        callState lib state (ClearRefinements (attributeName refinement)) w
      else if type refinement = ''exclude'' then
        callState lib state
          (RemoveExcludeRefinement (attributeName refinement) (name refinement)) w
      else if type refinement = ''numeric'' then
        callState lib state
          (RemoveNumericRefinement (attributeName refinement) (operator refinement)
             (numericValue refinement)) w
      else if type refinement = ''tag'' then
        callState lib state (RemoveTagRefinement (name refinement)) w
      else (Inl (UnsupportedRefinementType (type refinement)), w))"

text \<open>\<^verbatim>\<open>helper.setState(clearRefinementFromState(helper.state, refinement)).search()\<close>\<close>

definition clearRefinement ::
  "('res, 'st, 'n) collaborators \<Rightarrow> nat \<Rightarrow> 'n refinement \<Rightarrow> ('st, 'n) world
     \<Rightarrow> (error + unit) \<times> ('st, 'n) world" where
  "clearRefinement lib helper refinement w =
     (case clearRefinementFromState lib (helperState w helper) refinement w of
        (Inl e, w1) \<Rightarrow> (Inl e, w1)
      | (Inr state, w1) \<Rightarrow>
          (Inr (),
           w1\<lparr>helperState := (helperState w1)(helper := state),
              trace := trace w1 @ [SetState helper state, Search helper]\<rparr>))"

definition recognizedTypes :: "string set" where
  "recognizedTypes =
     {''facet'', ''disjunctive'', ''hierarchical'', ''exclude'', ''numeric'', ''tag''}"

section \<open>The widget factory\<close>

text \<open>
  The callback of the \<^verbatim>\<open>reduce\<close> that validates the attribute specifications, and the
  value \<^verbatim>\<open>attributesOK\<close> computed from it.
\<close>

definition checkAttribute :: "bool \<Rightarrow> jsval \<Rightarrow> bool" where
  "checkAttribute res val \<longleftrightarrow>
     res \<and>
     isPlainObject val \<and>
     isString (getProp val ''name'') \<and>
     (isUndefined (getProp val ''label'') \<or> isString (getProp val ''label'')) \<and>
     (isUndefined (getProp val ''template'') \<or> isString (getProp val ''template'') \<or>
        isFunction (getProp val ''template'')) \<and>
     (isUndefined (getProp val ''transformData'') \<or> isFunction (getProp val ''transformData''))"

definition attributesOK :: "jsval \<Rightarrow> bool" where
  "attributesOK attributes \<longleftrightarrow>
     isArray attributes \<and> foldl checkAttribute True (elements attributes)"

text \<open>
  The widget object: the constants its two methods close over, as values, and the field
  \<^verbatim>\<open>this._clearRefinementsAndSearch\<close>, unset until \<^verbatim>\<open>init\<close> assigns it.
\<close>

record 'n widget =
  attributeNames :: "jsval list"
  restrictedTo :: "jsval list"
  attributesObj :: builtObject
  onlyListedAttributes :: jsval
  widgetParams :: jsval
  this_clearRefinementsAndSearch :: "'n boundFunction option"

text \<open>
  The factory applied to the options. An omitted argument is \<^verbatim>\<open>{}\<close>; destructuring \<^verbatim>\<open>null\<close>
  throws before any check is made; every other value is read property by property with
  the defaults \<^verbatim>\<open>[]\<close> and \<^verbatim>\<open>false\<close>. The rendering function, the first argument of the
  connector, does not enter the construction; its invocations by \<^verbatim>\<open>init\<close> and \<^verbatim>\<open>render\<close> are
  the \<open>RenderCall\<close> events.
\<close>

definition connectCurrentRefinedValues :: "jsval \<Rightarrow> error + 'n widget" where
  "connectCurrentRefinedValues params =
     (let params = withDefault params (JObject [])
      in if params = JNull then Inl NullDestructuring
         else
           let attributes = withDefault (getProp params ''attributes'') (JArray []);
               onlyListed =
                 withDefault (getProp params ''onlyListedAttributes'') (JBoolean False);
               showUsage =
                 (False \<or> \<not> isArray attributes \<or> \<not> attributesOK attributes \<or>
                  \<not> isBoolean onlyListed)
           in if showUsage then Inl UsageError
              else
                let names =
                      map (\<lambda>attribute. getProp attribute ''name'') (elements attributes)
                in Inr \<lparr>attributeNames = names,
                        restrictedTo = (if toBoolean onlyListed then names else []),
                        attributesObj =
                          foldl (\<lambda>res attribute.
                                   assignProperty res (propertyKey (getProp attribute ''name''))
                                     attribute)
                            \<lparr>ownProperties = [], prototypeSet = None\<rparr>
                            (elements attributes),
                        onlyListedAttributes = onlyListed,
                        widgetParams = params,
                        this_clearRefinementsAndSearch = None\<rparr>)"

text \<open>
  The configuration contract in words: \<open>attributes\<close> (empty if absent) is an array of
  plain records, each with a string \<open>name\<close>, and, where given, a string \<open>label\<close>, a string
  or function \<open>template\<close> and a function \<open>transformData\<close>; \<open>onlyListedAttributes\<close>
  (false if absent) is a boolean. A property holding \<^verbatim>\<open>undefined\<close> counts as absent; a string
  is a string value or a \<^verbatim>\<open>String\<close> object, a boolean a boolean value or a \<^verbatim>\<open>Boolean\<close> object.
  The contract is about the properties of the options and says nothing that \<^verbatim>\<open>null\<close>, which
  has none, could violate.
\<close>

definition stringLike :: "jsval option \<Rightarrow> bool" where
  "stringLike p =
     (case p of Some (JString s) \<Rightarrow> True | Some (JStringObject i s) \<Rightarrow> True | _ \<Rightarrow> False)"


definition optionalProperty :: "(string \<times> jsval) list \<Rightarrow> string \<Rightarrow> jsval option" where
  "optionalProperty ps k =
     (case map_of ps k of None \<Rightarrow> None | Some JUndefined \<Rightarrow> None | Some v \<Rightarrow> Some v)"

definition validAttributeSpec :: "jsval \<Rightarrow> bool" where
  "validAttributeSpec v =
     (case v of
        JObject ps \<Rightarrow>
          stringLike (optionalProperty ps ''name'') \<and>
          (optionalProperty ps ''label'' = None \<or> stringLike (optionalProperty ps ''label'')) \<and>
          (case optionalProperty ps ''template'' of
             None \<Rightarrow> True | Some (JFunction f) \<Rightarrow> True
           | p \<Rightarrow> stringLike p) \<and>
          (case optionalProperty ps ''transformData'' of
             None \<Rightarrow> True | Some (JFunction f) \<Rightarrow> True | _ \<Rightarrow> False)
      | _ \<Rightarrow> False)"

definition configProperties :: "jsval \<Rightarrow> (string \<times> jsval) list" where
  "configProperties params =
     (case params of JObject ps \<Rightarrow> ps | JInstance i ps \<Rightarrow> ps | _ \<Rightarrow> [])"

definition validConfig :: "jsval \<Rightarrow> bool" where
  "validConfig params =
     ((case optionalProperty (configProperties params) ''attributes'' of
         None \<Rightarrow> True
       | Some (JArray specs) \<Rightarrow> list_all validAttributeSpec specs
       | _ \<Rightarrow> False) \<and>
      (case optionalProperty (configProperties params) ''onlyListedAttributes'' of
         None \<Rightarrow> True
       | Some (JBoolean b) \<Rightarrow> True
       | Some (JBooleanObject i b) \<Rightarrow> True
       | _ \<Rightarrow> False))"

section \<open>The two rendering passes\<close>

text \<open>\<^verbatim>\<open>f.bind(null, ...)\<close>: a new function object, with a fresh identity.\<close>

definition bindFunction ::
  "'n target \<Rightarrow> ('st, 'n) world \<Rightarrow> 'n boundFunction \<times> ('st, 'n) world" where
  "bindFunction t w =
     (BoundFunction (nextFunctionId w) t,
      w\<lparr>nextFunctionId := Suc (nextFunctionId w),
        trace := trace w @ [BindCall (BoundFunction (nextFunctionId w) t)]\<rparr>)"

text \<open>
  \<^verbatim>\<open>Array.prototype.map\<close> with a callback that acts on the world and may throw: the elements
  are visited in order, and the first exception ends the walk.
\<close>

fun arrayMap ::
  "('a \<Rightarrow> 'w \<Rightarrow> (error + 'b) \<times> 'w) \<Rightarrow> 'a list \<Rightarrow> 'w \<Rightarrow> (error + 'b list) \<times> 'w" where
  "arrayMap f [] w = (Inr [], w)"
| "arrayMap f (x # xs) w =
     (case f x w of
        (Inl e, w1) \<Rightarrow> (Inl e, w1)
      | (Inr y, w1) \<Rightarrow>
          (case arrayMap f xs w1 of
             (Inl e, w2) \<Rightarrow> (Inl e, w2)
           | (Inr ys, w2) \<Rightarrow> (Inr (y # ys), w2)))"

text \<open>The two callbacks mapped over the refinements.\<close>

definition clearRefinementURL ::
  "('res, 'st, 'n) collaborators \<Rightarrow> ('st \<Rightarrow> string) \<Rightarrow> 'st \<Rightarrow> 'n refinement
     \<Rightarrow> ('st, 'n) world \<Rightarrow> (error + string) \<times> ('st, 'n) world" where
  "clearRefinementURL lib createURL state refinement w =
     (case clearRefinementFromState lib state refinement w of
        (Inl e, w1) \<Rightarrow> (Inl e, w1)
      | (Inr state1, w1) \<Rightarrow> (Inr (createURL state1), w1))"

definition clearRefinementClick ::
  "nat \<Rightarrow> 'n refinement \<Rightarrow> ('st, 'n) world
     \<Rightarrow> (error + 'n boundFunction) \<times> ('st, 'n) world" where
  "clearRefinementClick helper refinement w =
     (case bindFunction (ClearRefinement helper refinement) w of (f, w1) \<Rightarrow> (Inr f, w1))"

text \<open>\<^verbatim>\<open>this._clearRefinementsAndSearch\<close> read as a property value.\<close>

definition cachedClearAll :: "'n widget \<Rightarrow> 'n vmval" where
  "cachedClearAll widget =
     (case this_clearRefinementsAndSearch widget of
        None \<Rightarrow> VUndefined
      | Some f \<Rightarrow> VFunction f)"

text \<open>
  \<^verbatim>\<open>init({helper, createURL, instantSearchInstance})\<close> and
  \<^verbatim>\<open>render({results, helper, state, createURL, instantSearchInstance})\<close>. Each returns
  whether it threw, the widget object and the world after the call. The call of the
  rendering function is the \<open>RenderCall\<close> event, with the object literal as its list of
  properties.
\<close>

definition init ::
  "('res, 'st, 'n) collaborators \<Rightarrow> 'n widget \<Rightarrow> nat \<Rightarrow> ('st \<Rightarrow> string) \<Rightarrow> nat
     \<Rightarrow> ('st, 'n) world \<Rightarrow> (error + unit) \<times> 'n widget \<times> ('st, 'n) world" where
  "init lib widget helper createURL instantSearchInstance w =
     (case bindFunction (ClearRefinementsAndSearch helper (restrictedTo widget)) w of
        (f, w1) \<Rightarrow>
          let widget = widget\<lparr>this_clearRefinementsAndSearch := Some f\<rparr>;
              clearAllURL =
                createURL
                  (clearRefinementsFromState lib (helperState w1 helper) (restrictedTo widget));
              refinements =
                getFilteredRefinements lib EmptyObject (helperState w1 helper)
                  (attributeNames widget) (toBoolean (onlyListedAttributes widget))
          in case arrayMap (clearRefinementURL lib createURL (helperState w1 helper))
                    refinements w1 of
               (Inl e, w2) \<Rightarrow> (Inl e, widget, w2)
             | (Inr clearRefinementURLs, w2) \<Rightarrow>
                 (case arrayMap (clearRefinementClick helper) refinements w2 of
                    (Inl e, w3) \<Rightarrow> (Inl e, widget, w3)
                  | (Inr clearRefinementClicks, w3) \<Rightarrow>
                      (Inr (), widget,
                       w3\<lparr>trace := trace w3 @
                            [RenderCall
                               [(''attributes'', VObject (attributesObj widget)),
                                (''clearAllClick'', cachedClearAll widget),
                                (''clearAllURL'', VString clearAllURL),
                                (''clearRefinementClicks'', VFunctions clearRefinementClicks),
                                (''clearRefinementURLs'', VStrings clearRefinementURLs),
                                (''refinements'', VRefinements refinements),
                                (''instantSearchInstance'', VInstance instantSearchInstance),
                                (''widgetParams'', VValue (widgetParams widget))]
                               True]\<rparr>)))"

definition render ::
  "('res, 'st, 'n) collaborators \<Rightarrow> 'n widget \<Rightarrow> 'res \<Rightarrow> nat \<Rightarrow> 'st \<Rightarrow> ('st \<Rightarrow> string)
     \<Rightarrow> nat \<Rightarrow> ('st, 'n) world \<Rightarrow> (error + unit) \<times> 'n widget \<times> ('st, 'n) world" where
  "render lib widget results helper state createURL instantSearchInstance w =
     (let clearAllURL = createURL (clearRefinementsFromState lib state (restrictedTo widget));
          refinements =
            getFilteredRefinements lib (SearchResults results) state
              (attributeNames widget) (toBoolean (onlyListedAttributes widget))
      in case arrayMap (clearRefinementURL lib createURL state) refinements w of
           (Inl e, w2) \<Rightarrow> (Inl e, widget, w2)
         | (Inr clearRefinementURLs, w2) \<Rightarrow>
             (case arrayMap (clearRefinementClick helper) refinements w2 of
                (Inl e, w3) \<Rightarrow> (Inl e, widget, w3)
              | (Inr clearRefinementClicks, w3) \<Rightarrow>
                  (Inr (), widget,
                   w3\<lparr>trace := trace w3 @
                        [RenderCall
                           [(''attributes'', VObject (attributesObj widget)),
                            (''clearAllClick'', cachedClearAll widget),
                            (''clearAllURL'', VString clearAllURL),
                            (''clearRefinementClicks'', VFunctions clearRefinementClicks),
                            (''clearRefinementURLs'', VStrings clearRefinementURLs),
                            (''refinements'', VRefinements refinements),
                            (''instantSearchInstance'', VInstance instantSearchInstance),
                            (''widgetParams'', VValue (widgetParams widget))]
                           False]\<rparr>)))"

text \<open>
  What the two methods have in common, for the proofs: the computation of \<^verbatim>\<open>render\<close> with
  the results argument and the first-render flag left open. \<open>render\<close> is this pass with
  the flag false; \<open>init\<close> is the binding of the clear-all function followed by this pass
  with the flag true (lemmas \<open>render_renderingPass\<close> and \<open>init_renderingPass\<close>).
\<close>

definition renderingPass ::
  "bool \<Rightarrow> ('res, 'st, 'n) collaborators \<Rightarrow> 'n widget \<Rightarrow> 'res resultsArg \<Rightarrow> nat \<Rightarrow> 'st
     \<Rightarrow> ('st \<Rightarrow> string) \<Rightarrow> nat \<Rightarrow> ('st, 'n) world
     \<Rightarrow> (error + unit) \<times> 'n widget \<times> ('st, 'n) world" where
  "renderingPass first lib widget results helper state createURL instantSearchInstance w =
     (let clearAllURL = createURL (clearRefinementsFromState lib state (restrictedTo widget));
          refinements =
            getFilteredRefinements lib results state
              (attributeNames widget) (toBoolean (onlyListedAttributes widget))
      in case arrayMap (clearRefinementURL lib createURL state) refinements w of
           (Inl e, w2) \<Rightarrow> (Inl e, widget, w2)
         | (Inr clearRefinementURLs, w2) \<Rightarrow>
             (case arrayMap (clearRefinementClick helper) refinements w2 of
                (Inl e, w3) \<Rightarrow> (Inl e, widget, w3)
              | (Inr clearRefinementClicks, w3) \<Rightarrow>
                  (Inr (), widget,
                   w3\<lparr>trace := trace w3 @
                        [RenderCall
                           [(''attributes'', VObject (attributesObj widget)),
                            (''clearAllClick'', cachedClearAll widget),
                            (''clearAllURL'', VString clearAllURL),
                            (''clearRefinementClicks'', VFunctions clearRefinementClicks),
                            (''clearRefinementURLs'', VStrings clearRefinementURLs),
                            (''refinements'', VRefinements refinements),
                            (''instantSearchInstance'', VInstance instantSearchInstance),
                            (''widgetParams'', VValue (widgetParams widget))]
                           first]\<rparr>)))"

text \<open>
  Reading the options object that a \<open>RenderCall\<close> carries, and the events a call added to
  the trace.
\<close>

definition vmRefinements :: "(string \<times> 'n vmval) list \<Rightarrow> 'n refinement list" where
  "vmRefinements vm =
     (case map_of vm ''refinements'' of Some (VRefinements rs) \<Rightarrow> rs | _ \<Rightarrow> [])"

definition vmClearRefinementURLs :: "(string \<times> 'n vmval) list \<Rightarrow> string list" where
  "vmClearRefinementURLs vm =
     (case map_of vm ''clearRefinementURLs'' of Some (VStrings us) \<Rightarrow> us | _ \<Rightarrow> [])"

definition vmClearRefinementClicks :: "(string \<times> 'n vmval) list \<Rightarrow> 'n boundFunction list" where
  "vmClearRefinementClicks vm =
     (case map_of vm ''clearRefinementClicks'' of Some (VFunctions fs) \<Rightarrow> fs | _ \<Rightarrow> [])"

definition newEvents :: "('st, 'n) world \<Rightarrow> ('st, 'n) world \<Rightarrow> ('st, 'n) event list" where
  "newEvents w w1 = drop (length (trace w)) (trace w1)"

fun isClearAllBind :: "('st, 'n) event \<Rightarrow> bool" where
  "isClearAllBind (BindCall (BoundFunction i (ClearRefinementsAndSearch h names))) = True"
| "isClearAllBind e = False"

fun isStateCall :: "('st, 'n) event \<Rightarrow> bool" where
  "isStateCall (StateCall state call) = True"
| "isStateCall e = False"

fun isRenderCall :: "('st, 'n) event \<Rightarrow> bool" where
  "isRenderCall (RenderCall vm first) = True"
| "isRenderCall e = False"

text \<open>
  Index alignment in words: a URL and a bound function describe a refinement when the
  URL is that of the state with the refinement cleared and the function is
  \<^verbatim>\<open>clearRefinement\<close> bound to the helper and the refinement; an options object is aligned
  when its three arrays have one length and agree in this way at every index.
\<close>

definition describesRefinement ::
  "('res, 'st, 'n) collaborators \<Rightarrow> ('st \<Rightarrow> string) \<Rightarrow> nat \<Rightarrow> 'st \<Rightarrow> ('st, 'n) world
     \<Rightarrow> 'n refinement \<Rightarrow> string \<Rightarrow> 'n boundFunction \<Rightarrow> bool" where
  "describesRefinement lib createURL helper state w r url click \<longleftrightarrow>
     (case fst (clearRefinementFromState lib state r w) of
        Inl e \<Rightarrow> False
      | Inr cleared \<Rightarrow> url = createURL cleared) \<and>
     (case click of BoundFunction i t \<Rightarrow> t = ClearRefinement helper r)"

definition indexAligned ::
  "('res, 'st, 'n) collaborators \<Rightarrow> ('st \<Rightarrow> string) \<Rightarrow> nat \<Rightarrow> 'st \<Rightarrow> ('st, 'n) world
     \<Rightarrow> (string \<times> 'n vmval) list \<Rightarrow> bool" where
  "indexAligned lib createURL helper state w vm \<longleftrightarrow>
     length (vmClearRefinementURLs vm) = length (vmRefinements vm) \<and>
     length (vmClearRefinementClicks vm) = length (vmRefinements vm) \<and>
     (\<forall>i<length (vmRefinements vm).
        describesRefinement lib createURL helper state w
          (vmRefinements vm ! i) (vmClearRefinementURLs vm ! i) (vmClearRefinementClicks vm ! i))"

section \<open>A concrete collaborator\<close>

text \<open>
  A small search-parameters object to run the connector on: the state is the list of
  its active refinements, \<^verbatim>\<open>getRefinements\<close> returns that list, and each removal method
  drops the refinements it names.
\<close>

definition refinementOf :: "string \<Rightarrow> string \<Rightarrow> string \<Rightarrow> int refinement" where
  "refinementOf t a v =
     \<lparr>type = t, attributeName = a, name = v, operator = None, numericValue = None\<rparr>"

definition listLib :: "(unit, int refinement list, int) collaborators" where
  "listLib =
     \<lparr>getRefinements = (\<lambda>results state. state),
      clearRefinementsFromState =
        (\<lambda>state restricted.
           if restricted = [] then []
           else filter (\<lambda>r. JString (attributeName r) \<notin> set restricted) state),
      removeFacetRefinement =
        (\<lambda>state a v.
           filter (\<lambda>r. \<not> (type r = ''facet'' \<and> attributeName r = a \<and> name r = v)) state),
      removeDisjunctiveFacetRefinement =
        (\<lambda>state a v.
           filter (\<lambda>r. \<not> (type r = ''disjunctive'' \<and> attributeName r = a \<and> name r = v))
             state),
      clearRefinements = (\<lambda>state a. filter (\<lambda>r. attributeName r \<noteq> a) state),
      removeExcludeRefinement =
        (\<lambda>state a v.
           filter (\<lambda>r. \<not> (type r = ''exclude'' \<and> attributeName r = a \<and> name r = v)) state),
      removeNumericRefinement =
        (\<lambda>state a op v.
           filter (\<lambda>r. \<not> (type r = ''numeric'' \<and> attributeName r = a \<and> operator r = op \<and>
                          numericValue r = v)) state),
      removeTagRefinement =
        (\<lambda>state v. filter (\<lambda>r. \<not> (type r = ''tag'' \<and> name r = v)) state)\<rparr>"

definition sampleState :: "int refinement list" where
  "sampleState =
     [refinementOf ''facet'' ''size'' ''M'',
      refinementOf ''facet'' ''color'' ''red'',
      refinementOf ''facet'' ''size'' ''L'',
      refinementOf ''disjunctive'' ''brand'' ''Sony'',
      refinementOf ''facet'' ''color'' ''blue'']"

text \<open>
  The numeric refinement \<^verbatim>\<open>price >= 10\<close>, and a world in which nothing has happened yet and
  every helper holds two refinements on \<^verbatim>\<open>color\<close>.
\<close>

definition priceAtLeast10 :: "int refinement" where
  "priceAtLeast10 =
     \<lparr>type = ''numeric'', attributeName = ''price'', name = ''10'',
      operator = Some ''>='', numericValue = Some 10\<rparr>"

definition twoColours :: "int refinement list" where
  "twoColours = [refinementOf ''facet'' ''color'' ''red'', refinementOf ''facet'' ''color'' ''blue'']"

definition emptyWorld :: "(int refinement list, int) world" where
  "emptyWorld = \<lparr>trace = [], nextFunctionId = 0, helperState = (\<lambda>helper. twoColours)\<rparr>"


text \<open>
  Options with one configured attribute, the same with a \<^verbatim>\<open>String\<close> object as name and
  \<^verbatim>\<open>new Boolean(false)\<close> as flag, the widget the factory builds from the first, and a URL
  builder that spells out the values still refined.
\<close>

definition sampleOptions :: jsval where
  "sampleOptions =
     JObject
       [(''attributes'',
           JArray [JObject [(''name'', JString ''color''), (''label'', JString ''Colour'')]]),
        (''onlyListedAttributes'', JBoolean False)]"

definition wrappedOptions :: jsval where
  "wrappedOptions =
     JObject
       [(''attributes'', JArray [JObject [(''name'', JStringObject 1 ''color'')]]),
        (''onlyListedAttributes'', JBooleanObject 2 False)]"

definition sampleWidget :: "int widget" where
  "sampleWidget =
     \<lparr>attributeNames = [JString ''color''],
      restrictedTo = [],
      attributesObj =
        \<lparr>ownProperties =
           [(''color'', JObject [(''name'', JString ''color''), (''label'', JString ''Colour'')])],
         prototypeSet = None\<rparr>,
      onlyListedAttributes = JBoolean False,
      widgetParams = sampleOptions,
      this_clearRefinementsAndSearch = None\<rparr>"

definition sampleURL :: "int refinement list \<Rightarrow> string" where
  "sampleURL state = concat (map (\<lambda>r. CHR ''/'' # name r) state)"

text \<open>
  The widget and the world after \<open>init\<close> has run on the sample, and the options objects
  that \<open>init\<close>, and a later \<open>render\<close> with only \<^verbatim>\<open>blue\<close> still refined, hand to the
  rendering function.
\<close>

definition initialisedWidget :: "int widget" where
  "initialisedWidget = fst (snd (init listLib sampleWidget 0 sampleURL 7 emptyWorld))"

definition worldAfterInit :: "(int refinement list, int) world" where
  "worldAfterInit = snd (snd (init listLib sampleWidget 0 sampleURL 7 emptyWorld))"

definition sampleInitOptions :: "(string \<times> int vmval) list" where
  "sampleInitOptions =
     [(''attributes'', VObject (attributesObj sampleWidget)),
      (''clearAllClick'', VFunction (BoundFunction 0 (ClearRefinementsAndSearch 0 []))),
      (''clearAllURL'', VString []),
      (''clearRefinementClicks'',
         VFunctions
           [BoundFunction 1 (ClearRefinement 0 (refinementOf ''facet'' ''color'' ''blue'')),
            BoundFunction 2 (ClearRefinement 0 (refinementOf ''facet'' ''color'' ''red''))]),
      (''clearRefinementURLs'', VStrings [''/red'', ''/blue'']),
      (''refinements'',
         VRefinements
           [refinementOf ''facet'' ''color'' ''blue'', refinementOf ''facet'' ''color'' ''red'']),
      (''instantSearchInstance'', VInstance 7),
      (''widgetParams'', VValue sampleOptions)]"

definition sampleRenderOptions :: "(string \<times> int vmval) list" where
  "sampleRenderOptions =
     [(''attributes'', VObject (attributesObj sampleWidget)),
      (''clearAllClick'', VFunction (BoundFunction 0 (ClearRefinementsAndSearch 0 []))),
      (''clearAllURL'', VString []),
      (''clearRefinementClicks'',
         VFunctions
           [BoundFunction 3 (ClearRefinement 0 (refinementOf ''facet'' ''color'' ''blue''))]),
      (''clearRefinementURLs'', VStrings [[]]),
      (''refinements'', VRefinements [refinementOf ''facet'' ''color'' ''blue'']),
      (''instantSearchInstance'', VInstance 7),
      (''widgetParams'', VValue sampleOptions)]"


definition sampleStore :: "int arrayStore" where
  "sampleStore = \<lparr>cells = (\<lambda>a. if a = 0 then Some twoColours else None), nextCell = 1\<rparr>"

section \<open>Properties of the sort\<close>

subsection \<open>Positions and \<open>indexOf\<close>\<close>

lemma indexOfFrom_absent: "x \<notin> set xs \<Longrightarrow> indexOfFrom xs x i = -1"
  by (induction xs arbitrary: i) auto

lemma indexOfFrom_present: "x \<in> set xs \<Longrightarrow> indexOfFrom xs x i = i + int (position xs x)"
  by (induction xs arbitrary: i) auto

lemma indexOf_absent: "x \<notin> set xs \<Longrightarrow> indexOf xs x = -1"
  by (simp add: indexOf_def indexOfFrom_absent)

lemma indexOf_present: "x \<in> set xs \<Longrightarrow> indexOf xs x = int (position xs x)"
  by (simp add: indexOf_def indexOfFrom_present)

lemma indexOf_eq_minus1_iff: "indexOf xs x = -1 \<longleftrightarrow> x \<notin> set xs"
  by (cases "x \<in> set xs") (simp_all add: indexOf_absent indexOf_present)

lemma position_less_length: "x \<in> set xs \<Longrightarrow> position xs x < length xs"
  by (induction xs) auto

lemma position_absent: "x \<notin> set xs \<Longrightarrow> position xs x = length xs"
  by (induction xs) auto

lemma position_append:
  "position (xs @ ys) x = (if x \<in> set xs then position xs x else length xs + position ys x)"
  by (induction xs) auto

lemma nth_position: "x \<in> set xs \<Longrightarrow> xs ! position xs x = x"
  by (induction xs) auto

lemma position_inj: "x \<in> set xs \<Longrightarrow> position xs x = position xs y \<Longrightarrow> x = y"
  by (induction xs) (auto split: if_splits)

subsection \<open>The collected names\<close>

text \<open>
  A boolean is never an element of an array of strings, so the second test of the
  collecting callback always holds: every unlisted name is appended, repeated or not.
\<close>

lemma indexOf_boolean_in_strings: "indexOf (map JString res) (JBoolean b) = -1"
proof -
  have "JBoolean b \<notin> set (map JString res)" by auto
  then show ?thesis by (rule indexOf_absent)
qed

lemma collectOtherAttributeName_eq:
  "collectOtherAttributeName an res r =
     (if JString (attributeName r) \<in> set an then res else res @ [attributeName r])"
  unfolding collectOtherAttributeName_def
  by (simp add: indexOf_boolean_in_strings indexOf_eq_minus1_iff)

lemma foldl_collect:
  "foldl (collectOtherAttributeName an) acc rs =
     acc @ map attributeName (filter (\<lambda>r. JString (attributeName r) \<notin> set an) rs)"
  by (induction rs arbitrary: acc) (simp_all add: collectOtherAttributeName_eq)

lemma otherAttributeNames_eq:
  "otherAttributeNames an rs = map attributeName (filter (\<lambda>r. JString (attributeName r) \<notin> set an) rs)"
  by (simp add: otherAttributeNames_def foldl_collect)

subsection \<open>The insertion sort\<close>

lemma mset_insertSorted: "mset (insertSorted c x xs) = add_mset x (mset xs)"
  by (induction xs) auto

lemma mset_arraySort: "mset (arraySort c xs) = mset xs"
  unfolding arraySort_def by (induction xs) (auto simp: mset_insertSorted)

lemma set_insertSorted: "set (insertSorted c x xs) = insert x (set xs)"
  by (induction xs) auto

lemma set_arraySort: "set (arraySort c xs) = set xs"
  unfolding arraySort_def by (induction xs) (auto simp: set_insertSorted)

lemma sorted_insertSorted:
  assumes tot: "\<And>a b. a \<in> S \<Longrightarrow> b \<in> S \<Longrightarrow> \<not> c a b \<le> 0 \<Longrightarrow> c b a \<le> 0"
    and trans: "\<And>a b d. a \<in> S \<Longrightarrow> b \<in> S \<Longrightarrow> d \<in> S \<Longrightarrow> c a b \<le> 0 \<Longrightarrow> c b d \<le> 0 \<Longrightarrow> c a d \<le> 0"
    and "x \<in> S" "set xs \<subseteq> S" "sorted_wrt (\<lambda>a b. c a b \<le> 0) xs"
  shows "sorted_wrt (\<lambda>a b. c a b \<le> 0) (insertSorted c x xs)"
  using assms(3-)
proof (induction xs)
  case Nil
  then show ?case by simp
next
  case (Cons y ys)
  show ?case
  proof (cases "c x y \<le> 0")
    case True
    have "\<forall>z\<in>set ys. c x z \<le> 0"
    proof
      fix z assume z: "z \<in> set ys"
      with Cons.prems have "c y z \<le> 0" by simp
      with True show "c x z \<le> 0" using trans[of x y z] Cons.prems z by auto
    qed
    with True Cons.prems show ?thesis by simp
  next
    case False
    then have "c y x \<le> 0" using tot[of x y] Cons.prems by auto
    with False Cons show ?thesis by (auto simp: set_insertSorted)
  qed
qed

lemma sorted_arraySort:
  assumes tot: "\<And>a b. a \<in> S \<Longrightarrow> b \<in> S \<Longrightarrow> \<not> c a b \<le> 0 \<Longrightarrow> c b a \<le> 0"
    and trans: "\<And>a b d. a \<in> S \<Longrightarrow> b \<in> S \<Longrightarrow> d \<in> S \<Longrightarrow> c a b \<le> 0 \<Longrightarrow> c b d \<le> 0 \<Longrightarrow> c a d \<le> 0"
    and "set xs \<subseteq> S"
  shows "sorted_wrt (\<lambda>a b. c a b \<le> 0) (arraySort c xs)"
  using assms(3)
proof (induction xs)
  case Nil
  then show ?case by (simp add: arraySort_def)
next
  case (Cons x xs)
  then have "sorted_wrt (\<lambda>a b. c a b \<le> 0) (arraySort c xs)" by simp
  moreover have "set (arraySort c xs) \<subseteq> S" using Cons.prems by (simp add: set_arraySort)
  moreover have "x \<in> S" using Cons.prems by simp
  ultimately have "sorted_wrt (\<lambda>a b. c a b \<le> 0) (insertSorted c x (arraySort c xs))"
    using sorted_insertSorted[of S c x "arraySort c xs"] tot trans by blast
  then show ?case by (simp add: arraySort_def)
qed

lemma insertSorted_cong:
  "(\<And>b. b \<in> set xs \<Longrightarrow> c1 x b = c2 x b) \<Longrightarrow> insertSorted c1 x xs = insertSorted c2 x xs"
  by (induction xs) auto

lemma arraySort_cong:
  "(\<And>a b. a \<in> set xs \<Longrightarrow> b \<in> set xs \<Longrightarrow> c1 a b = c2 a b) \<Longrightarrow> arraySort c1 xs = arraySort c2 xs"
proof (induction xs)
  case Nil
  then show ?case by (simp add: arraySort_def)
next
  case (Cons x xs)
  then have IH: "arraySort c1 xs = arraySort c2 xs" by simp
  have "insertSorted c1 x (arraySort c2 xs) = insertSorted c2 x (arraySort c2 xs)"
    by (rule insertSorted_cong) (simp add: set_arraySort Cons.prems)
  with IH show ?case by (simp add: arraySort_def)
qed

subsection \<open>The comparator and the two-level order\<close>

lemma position_map_JString: "position (map JString xs) (JString x) = position xs x"
  by (induction xs) auto

lemma getRestrictedIndexForSort_sortKey:
  "JString a \<in> set names \<or> a \<in> set others \<Longrightarrow>
     getRestrictedIndexForSort names others a = int (sortKey names others a)"
  by (auto simp: getRestrictedIndexForSort_def sortKey_def position_append Let_def
      indexOf_present indexOf_absent position_map_JString)

lemma compareRefinements_le_iff:
  "compareRefinements names others a b \<le> 0 \<longleftrightarrow>
     getRestrictedIndexForSort names others (attributeName a)
       < getRestrictedIndexForSort names others (attributeName b) \<or>
     (getRestrictedIndexForSort names others (attributeName a)
       = getRestrictedIndexForSort names others (attributeName b) \<and> name a \<le> name b)"
  by (auto simp: compareRefinements_def Let_def)

lemma compareRefinements_sortsBefore:
  "JString (attributeName a) \<in> set names \<or> attributeName a \<in> set others \<Longrightarrow>
   JString (attributeName b) \<in> set names \<or> attributeName b \<in> set others \<Longrightarrow>
     compareRefinements names others a b \<le> 0 \<longleftrightarrow> sortsBefore names others a b"
  by (simp only: compareRefinements_le_iff getRestrictedIndexForSort_sortKey sortsBefore_def) simp

lemma sorted_compareRefinements:
  "sorted_wrt (\<lambda>a b. compareRefinements names others a b \<le> 0)
     (arraySort (compareRefinements names others) rs)"
proof (rule sorted_arraySort[where S = UNIV])
  show "set rs \<subseteq> UNIV" by simp
next
  fix a b :: "'a refinement"
  assume "\<not> compareRefinements names others a b \<le> 0"
  then show "compareRefinements names others b a \<le> 0"
    unfolding compareRefinements_le_iff by auto
next
  fix a b d :: "'a refinement"
  assume "compareRefinements names others a b \<le> 0" "compareRefinements names others b d \<le> 0"
  then show "compareRefinements names others a d \<le> 0"
    unfolding compareRefinements_le_iff by auto
qed

lemma attributeName_covered:
  "r \<in> set rs \<Longrightarrow>
     JString (attributeName r) \<in> set names \<or>
     attributeName r \<in> set (otherAttributeNames names rs)"
  by (auto simp: otherAttributeNames_eq)

lemma sorted_sortsBefore:
  "sorted_wrt (sortsBefore names (otherAttributeNames names rs))
     (arraySort (compareRefinements names (otherAttributeNames names rs)) rs)"
proof (rule sorted_wrt_mono_rel[OF _ sorted_compareRefinements])
  fix a b
  assume "a \<in> set (arraySort (compareRefinements names (otherAttributeNames names rs)) rs)"
    and "b \<in> set (arraySort (compareRefinements names (otherAttributeNames names rs)) rs)"
    and le: "compareRefinements names (otherAttributeNames names rs) a b \<le> 0"
  then have "a \<in> set rs" "b \<in> set rs" by (simp_all add: set_arraySort)
  then show "sortsBefore names (otherAttributeNames names rs) a b"
    using le compareRefinements_sortsBefore attributeName_covered by blast
qed

lemma getFilteredRefinements_sorted:
  "sorted_wrt (sortsBefore names (otherAttributeNames names (getRefinements lib results state)))
     (getFilteredRefinements lib results state names only)"
  unfolding getFilteredRefinements_def Let_def
  by (simp add: sorted_sortsBefore sorted_wrt_filter)

lemma set_getFilteredRefinements:
  "set (getFilteredRefinements lib results state names only) \<subseteq> set (getRefinements lib results state)"
  unfolding getFilteredRefinements_def Let_def by (auto simp: set_arraySort)

lemma position_filter_mono:
  "P x \<Longrightarrow> P y \<Longrightarrow> x \<in> set xs \<Longrightarrow> y \<in> set xs \<Longrightarrow>
     position (filter P xs) x \<le> position (filter P xs) y \<Longrightarrow> position xs x \<le> position xs y"
  by (induction xs) (auto split: if_splits)

lemma otherAttributeNames_filter:
  "otherAttributeNames names rs =
     filter (\<lambda>a. JString a \<notin> set names) (map attributeName rs)"
  by (simp add: otherAttributeNames_eq filter_map comp_def)

lemma sorted_wrt_nthD:
  "sorted_wrt P xs \<Longrightarrow> i < j \<Longrightarrow> j < length xs \<Longrightarrow> P (xs ! i) (xs ! j)"
  by (simp add: sorted_wrt_iff_nth_less)

lemma sortKey_listed_iff:
  "sortKey names others a < length names \<longleftrightarrow> JString a \<in> set names"
  by (auto simp: sortKey_def position_append position_less_length)

lemma sortKey_listed:
  "JString a \<in> set names \<Longrightarrow> sortKey names others a = position names (JString a)"
  by (simp add: sortKey_def position_append)

lemma sortKey_unlisted:
  "JString a \<notin> set names \<Longrightarrow> sortKey names others a = length names + position others a"
  by (simp add: sortKey_def position_append position_map_JString)

lemma sortKey_inj:
  assumes "JString a \<in> set names \<or> a \<in> set others"
    and "sortKey names others a = sortKey names others b"
  shows "a = b"
proof -
  from assms(1) have "JString a \<in> set (names @ map JString others)" by auto
  from this assms(2) have "JString a = JString b" unfolding sortKey_def by (rule position_inj)
  then show ?thesis by simp
qed

lemma firstSeen_mono:
  assumes "JString a \<notin> set names" "JString b \<notin> set names"
    and "a \<in> attributeName ` set raw" "b \<in> attributeName ` set raw"
    and "position (otherAttributeNames names raw) a \<le> position (otherAttributeNames names raw) b"
  shows "firstSeen raw a \<le> firstSeen raw b"
  unfolding firstSeen_def
  using assms
    position_filter_mono[of "\<lambda>a. JString a \<notin> set names" a b "map attributeName raw"]
  by (simp add: otherAttributeNames_filter)

lemma sortsBefore_consequences:
  assumes sb: "sortsBefore names (otherAttributeNames names raw) a b"
    and a: "a \<in> set raw" and b: "b \<in> set raw"
  shows "(JString (attributeName b) \<in> set names \<longrightarrow> JString (attributeName a) \<in> set names) \<and>
         (JString (attributeName a) \<in> set names \<and> JString (attributeName b) \<in> set names \<longrightarrow>
            position names (JString (attributeName a)) \<le> position names (JString (attributeName b))) \<and>
         (JString (attributeName a) \<notin> set names \<and> JString (attributeName b) \<notin> set names \<longrightarrow>
            firstSeen raw (attributeName a) \<le> firstSeen raw (attributeName b)) \<and>
         (attributeName a = attributeName b \<longrightarrow> name a \<le> name b)"
proof -
  let ?o = "otherAttributeNames names raw"
  from sb have le: "sortKey names ?o (attributeName a) \<le> sortKey names ?o (attributeName b)"
    by (auto simp: sortsBefore_def)
  have c1: "JString (attributeName b) \<in> set names \<longrightarrow> JString (attributeName a) \<in> set names"
  proof
    assume "JString (attributeName b) \<in> set names"
    then have "sortKey names ?o (attributeName b) < length names"
      by (simp add: sortKey_listed_iff)
    with le have "sortKey names ?o (attributeName a) < length names" by simp
    then show "JString (attributeName a) \<in> set names" by (simp add: sortKey_listed_iff)
  qed
  have c2: "JString (attributeName a) \<in> set names \<and> JString (attributeName b) \<in> set names \<longrightarrow>
            position names (JString (attributeName a)) \<le> position names (JString (attributeName b))"
    using le by (auto simp: sortKey_listed)
  have c3: "JString (attributeName a) \<notin> set names \<and> JString (attributeName b) \<notin> set names \<longrightarrow>
            firstSeen raw (attributeName a) \<le> firstSeen raw (attributeName b)"
  proof
    assume u: "JString (attributeName a) \<notin> set names \<and> JString (attributeName b) \<notin> set names"
    with le have "position ?o (attributeName a) \<le> position ?o (attributeName b)"
      by (simp add: sortKey_unlisted)
    then show "firstSeen raw (attributeName a) \<le> firstSeen raw (attributeName b)"
      using u a b by (intro firstSeen_mono[of _ names]) auto
  qed
  have c4: "attributeName a = attributeName b \<longrightarrow> name a \<le> name b"
    using sb by (auto simp: sortsBefore_def)
  from c1 c2 c3 c4 show ?thesis by blast
qed

lemma mset_getFilteredRefinements:
  "mset (getFilteredRefinements lib results state names only) =
     mset (filter (\<lambda>r. only \<and> names \<noteq> [] \<longrightarrow> JString (attributeName r) \<in> set names)
             (getRefinements lib results state))"
  by (simp add: getFilteredRefinements_def Let_def isEmpty_def indexOf_eq_minus1_iff
      mset_arraySort)

text \<open>
  C1. The output of \<open>getFilteredRefinements\<close> holds the raw refinements, each as often as
  \<open>getRefinements\<close> returned it, less those the filter on listed attributes removes, and
  it is sorted by the two-level order: first by
  the position of the attribute name in the configured names followed by the collected
  other names, then by \<open>name\<close> ascending. Hence, for any two output positions \<open>i < j\<close>: a
  refinement on a configured attribute is never preceded by one on an unlisted attribute;
  configured attributes appear in configured order; unlisted attributes appear in the
  order in which they are first seen among the raw refinements; and refinements on the same
  attribute appear with ascending names.
\<close>

theorem getFilteredRefinements_two_level_order:
  fixes lib :: "('res, 'st, 'n) collaborators"
  shows
  "mset (getFilteredRefinements lib results state names only) =
     mset (filter (\<lambda>r. only \<and> names \<noteq> [] \<longrightarrow> JString (attributeName r) \<in> set names)
             (getRefinements lib results state)) \<and>
   sorted_wrt (sortsBefore names (otherAttributeNames names (getRefinements lib results state)))
     (getFilteredRefinements lib results state names only) \<and>
   (\<forall>i j. i < j \<and> j < length (getFilteredRefinements lib results state names only) \<longrightarrow>
      (let a = getFilteredRefinements lib results state names only ! i;
           b = getFilteredRefinements lib results state names only ! j
       in (JString (attributeName b) \<in> set names \<longrightarrow> JString (attributeName a) \<in> set names) \<and>
          (JString (attributeName a) \<in> set names \<and> JString (attributeName b) \<in> set names \<longrightarrow>
             position names (JString (attributeName a)) \<le> position names (JString (attributeName b))) \<and>
          (JString (attributeName a) \<notin> set names \<and> JString (attributeName b) \<notin> set names \<longrightarrow>
             firstSeen (getRefinements lib results state) (attributeName a)
               \<le> firstSeen (getRefinements lib results state) (attributeName b)) \<and>
          (attributeName a = attributeName b \<longrightarrow> name a \<le> name b)))"
proof (intro conjI allI impI)
  let ?raw = "getRefinements lib results state"
  let ?out = "getFilteredRefinements lib results state names only"
  show "mset ?out =
     mset (filter (\<lambda>r. only \<and> names \<noteq> [] \<longrightarrow> JString (attributeName r) \<in> set names) ?raw)"
    by (rule mset_getFilteredRefinements)
  show srt: "sorted_wrt (sortsBefore names (otherAttributeNames names ?raw)) ?out"
    by (rule getFilteredRefinements_sorted)
  fix i j
  assume ij: "i < j \<and> j < length ?out"
  then have "sortsBefore names (otherAttributeNames names ?raw) (?out ! i) (?out ! j)"
    using srt by (simp add: sorted_wrt_nthD)
  moreover have "?out ! i \<in> set ?raw" "?out ! j \<in> set ?raw"
    using ij set_getFilteredRefinements[of lib results state names only] nth_mem[of i ?out] nth_mem[of j ?out]
    by auto
  ultimately show "let a = ?out ! i; b = ?out ! j
       in (JString (attributeName b) \<in> set names \<longrightarrow> JString (attributeName a) \<in> set names) \<and>
          (JString (attributeName a) \<in> set names \<and> JString (attributeName b) \<in> set names \<longrightarrow>
             position names (JString (attributeName a)) \<le> position names (JString (attributeName b))) \<and>
          (JString (attributeName a) \<notin> set names \<and> JString (attributeName b) \<notin> set names \<longrightarrow>
             firstSeen ?raw (attributeName a) \<le> firstSeen ?raw (attributeName b)) \<and>
          (attributeName a = attributeName b \<longrightarrow> name a \<le> name b)"
    unfolding Let_def by (rule sortsBefore_consequences)
qed

lemma sample_sorted:
  "getFilteredRefinements listLib EmptyObject sampleState [JString ''color''] False =
     [refinementOf ''facet'' ''color'' ''blue'',
      refinementOf ''facet'' ''color'' ''red'',
      refinementOf ''facet'' ''size'' ''L'',
      refinementOf ''facet'' ''size'' ''M'',
      refinementOf ''disjunctive'' ''brand'' ''Sony'']"
  by (simp add: getFilteredRefinements_def listLib_def otherAttributeNames_def
      collectOtherAttributeName_def sampleState_def refinementOf_def indexOf_def
      arraySort_def compareRefinements_def getRestrictedIndexForSort_def isEmpty_def Let_def)

theorem getFilteredRefinements_two_level_order_witness:
  "sorted_wrt (sortsBefore [JString ''color''] [''size'', ''size'', ''brand''])
     [refinementOf ''facet'' ''color'' ''blue'',
      refinementOf ''facet'' ''color'' ''red'',
      refinementOf ''facet'' ''size'' ''L'',
      refinementOf ''facet'' ''size'' ''M'',
      refinementOf ''disjunctive'' ''brand'' ''Sony''] \<and>
   (''blue'' :: string) \<le> ''red'' \<and>
   firstSeen sampleState ''size'' \<le> firstSeen sampleState ''brand'' \<and>
   mset [refinementOf ''facet'' ''color'' ''blue'',
         refinementOf ''facet'' ''color'' ''red'',
         refinementOf ''facet'' ''size'' ''L'',
         refinementOf ''facet'' ''size'' ''M'',
         refinementOf ''disjunctive'' ''brand'' ''Sony''] = mset sampleState"
proof -
  have others: "otherAttributeNames [JString ''color''] sampleState = [''size'', ''size'', ''brand'']"
    by (simp add: otherAttributeNames_def collectOtherAttributeName_def sampleState_def
        refinementOf_def indexOf_def)
  have raw: "getRefinements listLib EmptyObject sampleState = sampleState"
    by (simp add: listLib_def)
  note main = getFilteredRefinements_two_level_order
    [where names = "[JString ''color'']" and lib = listLib and results = EmptyObject
       and state = sampleState and only = False]
  have s: "sorted_wrt (sortsBefore [JString ''color''] [''size'', ''size'', ''brand''])
     [refinementOf ''facet'' ''color'' ''blue'',
      refinementOf ''facet'' ''color'' ''red'',
      refinementOf ''facet'' ''size'' ''L'',
      refinementOf ''facet'' ''size'' ''M'',
      refinementOf ''disjunctive'' ''brand'' ''Sony'']"
    using main[THEN conjunct2, THEN conjunct1] unfolding raw others sample_sorted .
  have n: "(''blue'' :: string) \<le> ''red''"
    using main[THEN conjunct2, THEN conjunct2, THEN spec, THEN spec, of 0 1]
    unfolding raw sample_sorted
    by (simp add: refinementOf_def)
  have f: "firstSeen sampleState ''size'' \<le> firstSeen sampleState ''brand''"
    using main[THEN conjunct2, THEN conjunct2, THEN spec, THEN spec, of 3 4]
    unfolding raw sample_sorted
    by (simp add: refinementOf_def)
  have m: "mset [refinementOf ''facet'' ''color'' ''blue'',
         refinementOf ''facet'' ''color'' ''red'',
         refinementOf ''facet'' ''size'' ''L'',
         refinementOf ''facet'' ''size'' ''M'',
         refinementOf ''disjunctive'' ''brand'' ''Sony''] = mset sampleState"
    using main[THEN conjunct1] unfolding raw sample_sorted by simp
  from s n f m show ?thesis by simp
qed

subsection \<open>Duplicates among the collected names\<close>

text \<open>
  C2. The collected list is not free of duplicates: two raw refinements on the same
  unlisted attribute put its name into \<open>otherAttributeNames\<close> twice, where the repaired
  membership test keeps one.
\<close>

theorem otherAttributeNames_keeps_duplicates:
  "otherAttributeNames []
     [refinementOf ''facet'' ''brand'' ''Apple'', refinementOf ''facet'' ''brand'' ''Sony'']
     = [''brand'', ''brand''] \<and>
   otherAttributeNames_dedup []
     [refinementOf ''facet'' ''brand'' ''Apple'', refinementOf ''facet'' ''brand'' ''Sony'']
     = [''brand'']"
  by (simp add: otherAttributeNames_def collectOtherAttributeName_def
      otherAttributeNames_dedup_def collectOtherAttributeName_dedup_def
      refinementOf_def indexOf_def)

subsection \<open>The filter on listed attributes\<close>

lemma getFilteredRefinements_unfiltered:
  "getFilteredRefinements lib results state names False =
     arraySort
       (compareRefinements names (otherAttributeNames names (getRefinements lib results state)))
       (getRefinements lib results state)"
  by (simp add: getFilteredRefinements_def Let_def)

text \<open>
  C5. With \<open>onlyListedAttributes\<close> and a non-empty list of names the output is the sorted
  list with exactly the refinements on unlisted attributes removed; with an empty list of
  names, or without \<open>onlyListedAttributes\<close>, the output is the whole sorted list, a
  rearrangement of the raw refinements.
\<close>

theorem getFilteredRefinements_filter:
  fixes lib :: "('res, 'st, 'n) collaborators"
  shows
  "(names \<noteq> [] \<longrightarrow>
      getFilteredRefinements lib results state names True =
        filter (\<lambda>r. JString (attributeName r) \<in> set names)
          (getFilteredRefinements lib results state names False)) \<and>
   (names = [] \<longrightarrow>
      getFilteredRefinements lib results state names True =
        getFilteredRefinements lib results state names False) \<and>
   mset (getFilteredRefinements lib results state names False) =
     mset (getRefinements lib results state)"
  by (simp add: getFilteredRefinements_def Let_def isEmpty_def indexOf_eq_minus1_iff
      mset_arraySort)

theorem getFilteredRefinements_filter_witness:
  "getFilteredRefinements listLib EmptyObject sampleState [JString ''color''] True =
     [refinementOf ''facet'' ''color'' ''blue'', refinementOf ''facet'' ''color'' ''red''] \<and>
   getFilteredRefinements listLib EmptyObject sampleState [] True =
     getFilteredRefinements listLib EmptyObject sampleState [] False \<and>
   mset (getFilteredRefinements listLib EmptyObject sampleState [JString ''color''] False) =
     mset sampleState"
proof -
  have raw: "getRefinements listLib EmptyObject sampleState = sampleState"
    by (simp add: listLib_def)
  have a: "getFilteredRefinements listLib EmptyObject sampleState [JString ''color''] True =
     [refinementOf ''facet'' ''color'' ''blue'', refinementOf ''facet'' ''color'' ''red'']"
    using getFilteredRefinements_filter
      [of "[JString ''color'']" listLib EmptyObject sampleState, THEN conjunct1]
    unfolding sample_sorted by (simp add: refinementOf_def)
  have b: "getFilteredRefinements listLib EmptyObject sampleState [] True =
     getFilteredRefinements listLib EmptyObject sampleState [] False"
    using getFilteredRefinements_filter
      [of "[]" listLib EmptyObject sampleState, THEN conjunct2, THEN conjunct1]
    by simp
  have c: "mset (getFilteredRefinements listLib EmptyObject sampleState [JString ''color''] False) =
     mset sampleState"
    using getFilteredRefinements_filter
      [of "[JString ''color'']" listLib EmptyObject sampleState, THEN conjunct2, THEN conjunct2]
    unfolding raw .
  from a b c show ?thesis by simp
qed

subsection \<open>Collecting with and without duplicates\<close>

lemma collectOtherAttributeName_dedup_eq:
  "collectOtherAttributeName_dedup names res r =
     (if JString (attributeName r) \<in> set names \<or> attributeName r \<in> set res then res
      else res @ [attributeName r])"
  by (simp add: collectOtherAttributeName_dedup_def indexOf_eq_minus1_iff)

lemma otherAttributeNames_snoc:
  "otherAttributeNames names (rs @ [r]) =
     (if JString (attributeName r) \<in> set names then otherAttributeNames names rs
      else otherAttributeNames names rs @ [attributeName r])"
  by (simp add: otherAttributeNames_def collectOtherAttributeName_eq)

lemma otherAttributeNames_dedup_snoc:
  "otherAttributeNames_dedup names (rs @ [r]) =
     (if JString (attributeName r) \<in> set names \<or> attributeName r \<in> set (otherAttributeNames_dedup names rs)
      then otherAttributeNames_dedup names rs
      else otherAttributeNames_dedup names rs @ [attributeName r])"
  by (simp add: otherAttributeNames_dedup_def collectOtherAttributeName_dedup_eq)

lemma set_otherAttributeNames_dedup:
  "set (otherAttributeNames_dedup names rs) = set (otherAttributeNames names rs)"
proof (induction rs rule: rev_induct)
  case Nil
  show ?case by (simp add: otherAttributeNames_def otherAttributeNames_dedup_def)
next
  case (snoc r rs)
  then show ?case
    by (auto simp: otherAttributeNames_snoc otherAttributeNames_dedup_snoc)
qed

lemma position_order_dedup:
  "x \<in> set (otherAttributeNames names rs) \<Longrightarrow> y \<in> set (otherAttributeNames names rs) \<Longrightarrow>
     position (otherAttributeNames names rs) x < position (otherAttributeNames names rs) y \<longleftrightarrow>
     position (otherAttributeNames_dedup names rs) x
       < position (otherAttributeNames_dedup names rs) y"
proof (induction rs rule: rev_induct)
  case Nil
  then show ?case by (simp add: otherAttributeNames_def)
next
  case (snoc r rs)
  let ?O = "otherAttributeNames names rs"
  let ?D = "otherAttributeNames_dedup names rs"
  have sets: "set ?D = set ?O" by (rule set_otherAttributeNames_dedup)
  show ?case
  proof (cases "JString (attributeName r) \<in> set names")
    case True
    with snoc show ?thesis
      by (simp add: otherAttributeNames_snoc otherAttributeNames_dedup_snoc)
  next
    case False
    show ?thesis
    proof (cases "attributeName r \<in> set ?O")
      case True
      with False snoc.prems have "x \<in> set ?O" "y \<in> set ?O"
        by (auto simp: otherAttributeNames_snoc)
      with snoc.IH True False sets show ?thesis
        by (simp add: otherAttributeNames_snoc otherAttributeNames_dedup_snoc position_append)
    next
      case new: False
      have lO: "z \<in> set ?O \<Longrightarrow> position ?O z < length ?O" for z
        by (rule position_less_length)
      have lD: "z \<in> set ?O \<Longrightarrow> position ?D z < length ?D" for z
        using sets position_less_length[of z ?D] by simp
      from False new snoc.prems
      have xy: "x \<in> set ?O \<or> x = attributeName r" "y \<in> set ?O \<or> y = attributeName r"
        by (auto simp: otherAttributeNames_snoc)
      with False new sets snoc.IH lO[of x] lO[of y] lD[of x] lD[of y] show ?thesis
        by (auto simp: otherAttributeNames_snoc otherAttributeNames_dedup_snoc position_append)
    qed
  qed
qed

lemma getRestrictedIndexForSort_cases:
  "getRestrictedIndexForSort names others a =
     (if JString a \<in> set names then int (position names (JString a))
      else if a \<in> set others then int (length names + position others a)
      else int (length names) - 1)"
  by (simp add: getRestrictedIndexForSort_def Let_def indexOf_present indexOf_absent)

lemma key_order_dedup:
  assumes "JString a \<in> set names \<or> a \<in> set (otherAttributeNames names rs)"
    and "JString b \<in> set names \<or> b \<in> set (otherAttributeNames names rs)"
  shows "getRestrictedIndexForSort names (otherAttributeNames names rs) a
           < getRestrictedIndexForSort names (otherAttributeNames names rs) b \<longleftrightarrow>
         getRestrictedIndexForSort names (otherAttributeNames_dedup names rs) a
           < getRestrictedIndexForSort names (otherAttributeNames_dedup names rs) b"
  using assms position_order_dedup[of a names rs b]
    position_less_length[of "JString a" names] position_less_length[of "JString b" names]
  by (auto simp: getRestrictedIndexForSort_cases set_otherAttributeNames_dedup)

lemma key_eq_iff:
  assumes "JString a \<in> set names \<or> a \<in> set others"
    and "JString b \<in> set names \<or> b \<in> set others"
  shows "getRestrictedIndexForSort names others a = getRestrictedIndexForSort names others b
           \<longleftrightarrow> a = b"
proof
  assume "getRestrictedIndexForSort names others a = getRestrictedIndexForSort names others b"
  then have "sortKey names others a = sortKey names others b"
    using assms by (simp add: getRestrictedIndexForSort_sortKey)
  with assms(1) show "a = b" by (rule sortKey_inj)
qed simp

lemma compareRefinements_dedup:
  assumes "JString (attributeName a) \<in> set names \<or>
           attributeName a \<in> set (otherAttributeNames names rs)"
    and "JString (attributeName b) \<in> set names \<or>
         attributeName b \<in> set (otherAttributeNames names rs)"
  shows "compareRefinements names (otherAttributeNames names rs) a b =
         compareRefinements names (otherAttributeNames_dedup names rs) a b"
proof -
  have e1: "getRestrictedIndexForSort names (otherAttributeNames names rs) (attributeName a) =
            getRestrictedIndexForSort names (otherAttributeNames names rs) (attributeName b)
            \<longleftrightarrow> attributeName a = attributeName b"
    using assms by (rule key_eq_iff)
  have e2: "getRestrictedIndexForSort names (otherAttributeNames_dedup names rs) (attributeName a) =
            getRestrictedIndexForSort names (otherAttributeNames_dedup names rs) (attributeName b)
            \<longleftrightarrow> attributeName a = attributeName b"
    using assms by (intro key_eq_iff) (simp_all add: set_otherAttributeNames_dedup)
  show ?thesis
    unfolding compareRefinements_def Let_def e1 e2
    using key_order_dedup[OF assms] by simp
qed

text \<open>
  C10. Sorting and filtering with the collected names as the source computes them gives
  the same list as with the names collected without duplicates: for any two raw
  refinements the two comparators return the same value, because the first positions of
  two names stand in the same order in both lists.
\<close>

theorem getFilteredRefinements_dedup_same_output:
  fixes lib :: "('res, 'st, 'n) collaborators"
  shows
  "getFilteredRefinements_dedup lib results state names only =
     getFilteredRefinements lib results state names only \<and>
   (\<forall>a b. a \<in> set (getRefinements lib results state) \<and>
           b \<in> set (getRefinements lib results state) \<longrightarrow>
      compareRefinements names
        (otherAttributeNames_dedup names (getRefinements lib results state)) a b =
      compareRefinements names
        (otherAttributeNames names (getRefinements lib results state)) a b)"
proof -
  let ?raw = "getRefinements lib results state"
  have cmp: "compareRefinements names (otherAttributeNames_dedup names ?raw) a b =
             compareRefinements names (otherAttributeNames names ?raw) a b"
    if "a \<in> set ?raw" "b \<in> set ?raw" for a b
    using that compareRefinements_dedup[of a names ?raw b] attributeName_covered[of _ ?raw names]
    by simp
  have "arraySort (compareRefinements names (otherAttributeNames_dedup names ?raw)) ?raw =
        arraySort (compareRefinements names (otherAttributeNames names ?raw)) ?raw"
    by (rule arraySort_cong) (rule cmp)
  then have "getFilteredRefinements_dedup lib results state names only =
     getFilteredRefinements lib results state names only"
    by (simp add: getFilteredRefinements_dedup_def getFilteredRefinements_def Let_def)
  with cmp show ?thesis by blast
qed

theorem getFilteredRefinements_dedup_same_output_witness:
  "getFilteredRefinements_dedup listLib EmptyObject sampleState [JString ''color''] False =
     [refinementOf ''facet'' ''color'' ''blue'',
      refinementOf ''facet'' ''color'' ''red'',
      refinementOf ''facet'' ''size'' ''L'',
      refinementOf ''facet'' ''size'' ''M'',
      refinementOf ''disjunctive'' ''brand'' ''Sony''] \<and>
   compareRefinements [JString ''color''] (otherAttributeNames_dedup [JString ''color''] sampleState)
     (refinementOf ''facet'' ''size'' ''M'') (refinementOf ''disjunctive'' ''brand'' ''Sony'') = -1"
proof -
  have raw: "getRefinements listLib EmptyObject sampleState = sampleState"
    by (simp add: listLib_def)
  note main = getFilteredRefinements_dedup_same_output
    [of listLib EmptyObject sampleState "[JString ''color'']" False]
  have a: "getFilteredRefinements_dedup listLib EmptyObject sampleState [JString ''color''] False =
     [refinementOf ''facet'' ''color'' ''blue'',
      refinementOf ''facet'' ''color'' ''red'',
      refinementOf ''facet'' ''size'' ''L'',
      refinementOf ''facet'' ''size'' ''M'',
      refinementOf ''disjunctive'' ''brand'' ''Sony'']"
    using main[THEN conjunct1] unfolding sample_sorted .
  have b: "compareRefinements [JString ''color''] (otherAttributeNames_dedup [JString ''color''] sampleState)
     (refinementOf ''facet'' ''size'' ''M'') (refinementOf ''disjunctive'' ''brand'' ''Sony'') = -1"
    using main[THEN conjunct2, THEN spec, THEN spec,
        of "refinementOf ''facet'' ''size'' ''M''" "refinementOf ''disjunctive'' ''brand'' ''Sony''"]
    unfolding raw
    by (simp add: sampleState_def otherAttributeNames_def collectOtherAttributeName_def
        refinementOf_def indexOf_def compareRefinements_def getRestrictedIndexForSort_def)
  from a b show ?thesis by simp
qed

text \<open>
  The sort key itself is not the same under the two lists (against the reason C10 gives):
  a name collected after a repeated one stands at a later position in the list with
  duplicates.
\<close>

theorem sort_key_altered_by_duplicates:
  "getRestrictedIndexForSort [JString ''color''] (otherAttributeNames [JString ''color''] sampleState) ''brand'' = 3 \<and>
   getRestrictedIndexForSort [JString ''color''] (otherAttributeNames_dedup [JString ''color''] sampleState) ''brand'' = 2"
  by (simp add: sampleState_def otherAttributeNames_def collectOtherAttributeName_def
      otherAttributeNames_dedup_def collectOtherAttributeName_dedup_def
      refinementOf_def indexOf_def getRestrictedIndexForSort_def)

section \<open>Properties of clearing\<close>

text \<open>
  C3. \<open>clearRefinementFromState\<close> dispatches on the type of the refinement. A numeric
  refinement makes exactly one call, \<open>removeNumericRefinement\<close> with the attribute name, the
  operator and the numeric value, and returns its result; each of the other five types
  makes exactly one call of its own removal method (a tag by name only, a hierarchical
  refinement clearing the whole attribute); any other type string throws, and the world,
  with its trace of calls, is as it was.
\<close>

theorem clearRefinementFromState_dispatch:
  fixes lib :: "('res, 'st, 'n) collaborators" and w :: "('st, 'n) world"
  shows
  "(type r = ''numeric'' \<longrightarrow>
      clearRefinementFromState lib state r w =
        (Inr (removeNumericRefinement lib state (attributeName r) (operator r) (numericValue r)),
         w\<lparr>trace := trace w @
              [StateCall state
                 (RemoveNumericRefinement (attributeName r) (operator r) (numericValue r))]\<rparr>)) \<and>
   (type r = ''facet'' \<longrightarrow>
      clearRefinementFromState lib state r w =
        (Inr (removeFacetRefinement lib state (attributeName r) (name r)),
         w\<lparr>trace := trace w @
              [StateCall state (RemoveFacetRefinement (attributeName r) (name r))]\<rparr>)) \<and>
   (type r = ''disjunctive'' \<longrightarrow>
      clearRefinementFromState lib state r w =
        (Inr (removeDisjunctiveFacetRefinement lib state (attributeName r) (name r)),
         w\<lparr>trace := trace w @
              [StateCall state
                 (RemoveDisjunctiveFacetRefinement (attributeName r) (name r))]\<rparr>)) \<and>
   (type r = ''hierarchical'' \<longrightarrow>
      clearRefinementFromState lib state r w =
        (Inr (clearRefinements lib state (attributeName r)),
         w\<lparr>trace := trace w @ [StateCall state (ClearRefinements (attributeName r))]\<rparr>)) \<and>
   (type r = ''exclude'' \<longrightarrow>
      clearRefinementFromState lib state r w =
        (Inr (removeExcludeRefinement lib state (attributeName r) (name r)),
         w\<lparr>trace := trace w @
              [StateCall state (RemoveExcludeRefinement (attributeName r) (name r))]\<rparr>)) \<and>
   (type r = ''tag'' \<longrightarrow>
      clearRefinementFromState lib state r w =
        (Inr (removeTagRefinement lib state (name r)),
         w\<lparr>trace := trace w @ [StateCall state (RemoveTagRefinement (name r))]\<rparr>)) \<and>
   (type r \<notin> recognizedTypes \<longrightarrow>
      clearRefinementFromState lib state r w = (Inl (UnsupportedRefinementType (type r)), w))"
  by (simp add: clearRefinementFromState_def callState_def recognizedTypes_def)

theorem clearRefinementFromState_dispatch_witness:
  "clearRefinementFromState listLib sampleState priceAtLeast10 emptyWorld =
     (Inr (removeNumericRefinement listLib sampleState ''price'' (Some ''>='') (Some 10)),
      emptyWorld\<lparr>trace :=
        [StateCall sampleState (RemoveNumericRefinement ''price'' (Some ''>='') (Some 10))]\<rparr>) \<and>
   clearRefinementFromState listLib sampleState (refinementOf ''geo'' ''place'' ''Paris'')
     emptyWorld = (Inl (UnsupportedRefinementType ''geo''), emptyWorld)"
proof -
  have a: "type priceAtLeast10 = ''numeric''" by (simp add: priceAtLeast10_def)
  have b: "type (refinementOf ''geo'' ''place'' ''Paris'') \<notin> recognizedTypes"
    by (simp add: refinementOf_def recognizedTypes_def)
  from clearRefinementFromState_dispatch
         [of priceAtLeast10 listLib sampleState emptyWorld, THEN conjunct1, rule_format, OF a]
       clearRefinementFromState_dispatch
         [of "refinementOf ''geo'' ''place'' ''Paris''" listLib sampleState emptyWorld,
          THEN conjunct2, THEN conjunct2, THEN conjunct2, THEN conjunct2, THEN conjunct2,
          THEN conjunct2, rule_format, OF b]
  show ?thesis
    by (simp add: priceAtLeast10_def refinementOf_def emptyWorld_def)
qed

text \<open>
  \<open>clearRefinement\<close>, what a bound \<open>ClearRefinement helper refinement\<close> runs when it is
  called: for a recognised type the helper takes the cleared state and searches.
\<close>

lemma clearRefinement_recognized:
  fixes lib :: "('res, 'st, 'n) collaborators" and w :: "('st, 'n) world"
  assumes "type r \<in> recognizedTypes"
  shows "\<exists>cleared call.
           fst (clearRefinementFromState lib (helperState w helper) r w) = Inr cleared \<and>
           clearRefinement lib helper r w =
             (Inr (),
              w\<lparr>helperState := (helperState w)(helper := cleared),
                trace := trace w @
                  [StateCall (helperState w helper) call, SetState helper cleared,
                   Search helper]\<rparr>)"
  using assms
  by (auto simp: clearRefinement_def clearRefinementFromState_def callState_def
      recognizedTypes_def)

lemma clearRefinement_unrecognized:
  fixes lib :: "('res, 'st, 'n) collaborators" and w :: "('st, 'n) world"
  assumes "type r \<notin> recognizedTypes"
  shows "clearRefinement lib helper r w = (Inl (UnsupportedRefinementType (type r)), w)"
  using assms
  by (simp add: clearRefinement_def clearRefinementFromState_def recognizedTypes_def)

section \<open>Properties of the factory\<close>

lemma foldl_checkAttribute:
  "foldl checkAttribute b vs \<longleftrightarrow> b \<and> list_all (checkAttribute True) vs"
  by (induction vs arbitrary: b) (auto simp: checkAttribute_def)

lemma optionalProperty_defined: "optionalProperty ps k \<noteq> Some JUndefined"
  by (auto simp: optionalProperty_def split: option.splits jsval.splits)

lemma getProp_JObject:
  "getProp (JObject ps) k = (case optionalProperty ps k of None \<Rightarrow> JUndefined | Some v \<Rightarrow> v)"
  by (auto simp: getProp_def optionalProperty_def split: option.splits jsval.splits)

lemma required_string:
  "x \<noteq> Some JUndefined \<Longrightarrow>
     isString (case x of None \<Rightarrow> JUndefined | Some v \<Rightarrow> v) = stringLike x"
  by (cases x; cases "the x") (simp_all add: isString_def stringLike_def)

lemma optional_string:
  "x \<noteq> Some JUndefined \<Longrightarrow>
     (isUndefined (case x of None \<Rightarrow> JUndefined | Some v \<Rightarrow> v) \<or>
      isString (case x of None \<Rightarrow> JUndefined | Some v \<Rightarrow> v)) = (x = None \<or> stringLike x)"
  by (cases x; cases "the x") (simp_all add: isString_def isUndefined_def stringLike_def)

lemma optional_string_or_function:
  "x \<noteq> Some JUndefined \<Longrightarrow>
     (isUndefined (case x of None \<Rightarrow> JUndefined | Some v \<Rightarrow> v) \<or>
      isString (case x of None \<Rightarrow> JUndefined | Some v \<Rightarrow> v) \<or>
      isFunction (case x of None \<Rightarrow> JUndefined | Some v \<Rightarrow> v)) =
     (case x of None \<Rightarrow> True | Some (JFunction f) \<Rightarrow> True | p \<Rightarrow> stringLike p)"
  by (cases x; cases "the x")
     (simp_all add: isString_def isUndefined_def isFunction_def stringLike_def)

lemma optional_function:
  "x \<noteq> Some JUndefined \<Longrightarrow>
     (isUndefined (case x of None \<Rightarrow> JUndefined | Some v \<Rightarrow> v) \<or>
      isFunction (case x of None \<Rightarrow> JUndefined | Some v \<Rightarrow> v)) =
     (case x of None \<Rightarrow> True | Some (JFunction f) \<Rightarrow> True | _ \<Rightarrow> False)"
  by (cases x; cases "the x") (simp_all add: isUndefined_def isFunction_def)

lemma checkAttribute_validAttributeSpec: "checkAttribute True v = validAttributeSpec v"
proof (cases "isPlainObject v")
  case False
  then show ?thesis
    by (cases v) (simp_all add: checkAttribute_def validAttributeSpec_def isPlainObject_def)
next
  case True
  then obtain ps where v: "v = JObject ps" by (cases v) (simp_all add: isPlainObject_def)
  note n = required_string[OF optionalProperty_defined[of ps "''name''"]]
  note l = optional_string[OF optionalProperty_defined[of ps "''label''"]]
  note t = optional_string_or_function[OF optionalProperty_defined[of ps "''template''"]]
  note f = optional_function[OF optionalProperty_defined[of ps "''transformData''"]]
  show ?thesis
    by (simp only: v checkAttribute_def validAttributeSpec_def getProp_JObject n l t f
        isPlainObject_def jsval.case simp_thms)
qed

lemma checkAttribute_True: "checkAttribute True = validAttributeSpec"
  by (rule ext) (rule checkAttribute_validAttributeSpec)

lemma attributesOK_iff:
  "isArray v \<and> attributesOK v \<longleftrightarrow>
     (case v of JArray specs \<Rightarrow> list_all validAttributeSpec specs | _ \<Rightarrow> False)"
  by (cases v)
     (simp_all add: attributesOK_def isArray_def elements_def foldl_checkAttribute
        checkAttribute_True)

lemma getProp_optionalProperty:
  "getProp params k =
     (case optionalProperty (configProperties params) k of None \<Rightarrow> JUndefined | Some v \<Rightarrow> v)"
  by (cases params)
     (auto simp: getProp_def optionalProperty_def configProperties_def
        split: option.splits jsval.splits)

lemma withDefault_getProp:
  "withDefault (getProp params k) d =
     (case optionalProperty (configProperties params) k of None \<Rightarrow> d | Some v \<Rightarrow> v)"
  using optionalProperty_defined[of "configProperties params" k]
  by (cases "optionalProperty (configProperties params) k")
     (simp_all add: getProp_optionalProperty withDefault_def)

lemma attributes_checked:
  "isArray (case x of None \<Rightarrow> JArray [] | Some v \<Rightarrow> v) \<and>
   attributesOK (case x of None \<Rightarrow> JArray [] | Some v \<Rightarrow> v) \<longleftrightarrow>
   (case x of None \<Rightarrow> True | Some (JArray specs) \<Rightarrow> list_all validAttributeSpec specs
    | _ \<Rightarrow> False)"
  unfolding attributesOK_iff by (cases x; cases "the x") simp_all

lemma onlyListed_checked:
  "isBoolean (case y of None \<Rightarrow> JBoolean False | Some v \<Rightarrow> v) \<longleftrightarrow>
   (case y of None \<Rightarrow> True | Some (JBoolean b) \<Rightarrow> True | Some (JBooleanObject i b) \<Rightarrow> True
    | _ \<Rightarrow> False)"
  by (cases y; cases "the y") (simp_all add: isBoolean_def)

lemma showUsage_iff:
  "(\<not> isArray (withDefault (getProp params ''attributes'') (JArray [])) \<or>
    \<not> attributesOK (withDefault (getProp params ''attributes'') (JArray [])) \<or>
    \<not> isBoolean (withDefault (getProp params ''onlyListedAttributes'') (JBoolean False)))
   \<longleftrightarrow> \<not> validConfig params"
proof -
  have "validConfig params \<longleftrightarrow>
        (isArray (withDefault (getProp params ''attributes'') (JArray [])) \<and>
         attributesOK (withDefault (getProp params ''attributes'') (JArray []))) \<and>
        isBoolean (withDefault (getProp params ''onlyListedAttributes'') (JBoolean False))"
    unfolding withDefault_getProp attributes_checked onlyListed_checked validConfig_def ..
  then show ?thesis by blast
qed

text \<open>
  C4. For options other than \<^verbatim>\<open>null\<close>, the factory fails with the usage error exactly when
  the configuration violates the contract, and returns a widget otherwise.
\<close>

theorem connectCurrentRefinedValues_usage:
  assumes "params \<noteq> JNull"
  shows "((connectCurrentRefinedValues params :: error + 'n widget) = Inl UsageError
            \<longleftrightarrow> \<not> validConfig params) \<and>
         (validConfig params \<longrightarrow>
            (\<exists>widget :: 'n widget. connectCurrentRefinedValues params = Inr widget))"
proof (cases "params = JUndefined")
  case True
  then show ?thesis
    by (simp add: connectCurrentRefinedValues_def withDefault_def getProp_def isArray_def
        isBoolean_def attributesOK_def elements_def validConfig_def configProperties_def
        optionalProperty_def Let_def)
next
  case False
  with assms have p: "withDefault params (JObject []) = params" "params \<noteq> JNull"
    by (simp_all add: withDefault_def)
  show ?thesis
    unfolding connectCurrentRefinedValues_def Let_def p
    using showUsage_iff[of params] p(2) by auto
qed

theorem connectCurrentRefinedValues_usage_witness:
  "validConfig sampleOptions \<and>
   (\<exists>widget :: int widget. connectCurrentRefinedValues sampleOptions = Inr widget) \<and>
   validConfig wrappedOptions \<and>
   (\<exists>widget :: int widget. connectCurrentRefinedValues wrappedOptions = Inr widget) \<and>
   \<not> validConfig (JObject [(''attributes'', JArray [JObject [(''label'', JString ''Colour'')]])]) \<and>
   (connectCurrentRefinedValues
      (JObject [(''attributes'', JArray [JObject [(''label'', JString ''Colour'')]])])
      :: error + int widget) = Inl UsageError"
proof -
  have v: "validConfig sampleOptions"
    by (simp add: validConfig_def sampleOptions_def configProperties_def optionalProperty_def
        validAttributeSpec_def stringLike_def)
  have w: "validConfig wrappedOptions"
    by (simp add: validConfig_def wrappedOptions_def configProperties_def optionalProperty_def
        validAttributeSpec_def stringLike_def)
  have n: "\<not> validConfig
             (JObject [(''attributes'', JArray [JObject [(''label'', JString ''Colour'')]])])"
    by (simp add: validConfig_def configProperties_def optionalProperty_def
        validAttributeSpec_def stringLike_def)
  have a: "\<exists>widget :: int widget. connectCurrentRefinedValues sampleOptions = Inr widget"
    using connectCurrentRefinedValues_usage[of sampleOptions, where 'n = int] v
    by (simp add: sampleOptions_def)
  have c: "\<exists>widget :: int widget. connectCurrentRefinedValues wrappedOptions = Inr widget"
    using connectCurrentRefinedValues_usage[of wrappedOptions, where 'n = int] w
    by (simp add: wrappedOptions_def)
  have b: "(connectCurrentRefinedValues
      (JObject [(''attributes'', JArray [JObject [(''label'', JString ''Colour'')]])])
      :: error + int widget) = Inl UsageError"
    using connectCurrentRefinedValues_usage
      [of "JObject [(''attributes'', JArray [JObject [(''label'', JString ''Colour'')]])]",
       where 'n = int] n
    by simp
  from v a w c n b show ?thesis by blast
qed

text \<open>
  Against C4 as it is worded for every configuration: \<^verbatim>\<open>null\<close> violates none of the checks,
  and the factory throws on it, from the destructuring and not with the usage error.
\<close>

theorem connectCurrentRefinedValues_null:
  "validConfig JNull \<and>
   (connectCurrentRefinedValues JNull :: error + int widget) = Inl NullDestructuring"
  by (simp add: validConfig_def configProperties_def optionalProperty_def
      connectCurrentRefinedValues_def withDefault_def)

text \<open>The widgets built from the sample options.\<close>

lemma sample_factory:
  "(connectCurrentRefinedValues sampleOptions :: error + int widget) = Inr sampleWidget"
  by (simp add: connectCurrentRefinedValues_def sampleOptions_def sampleWidget_def
      withDefault_def getProp_def isArray_def isBoolean_def attributesOK_def elements_def
      checkAttribute_def isPlainObject_def isString_def isUndefined_def isFunction_def
      assignProperty_def Let_def)

text \<open>
  With a \<^verbatim>\<open>String\<close> object as name and \<^verbatim>\<open>new Boolean(false)\<close> as flag a widget is built: the
  name is kept as the object it is, the property of \<^verbatim>\<open>attributesObj\<close> is keyed by its text,
  and the flag, an object, is truthy, so the clear-all is restricted to the names.
\<close>

lemma wrapped_factory:
  "(connectCurrentRefinedValues wrappedOptions :: error + int widget) =
     Inr \<lparr>attributeNames = [JStringObject 1 ''color''],
          restrictedTo = [JStringObject 1 ''color''],
          attributesObj =
            \<lparr>ownProperties = [(''color'', JObject [(''name'', JStringObject 1 ''color'')])],
             prototypeSet = None\<rparr>,
          onlyListedAttributes = JBooleanObject 2 False,
          widgetParams = wrappedOptions,
          this_clearRefinementsAndSearch = None\<rparr>"
  by (simp add: connectCurrentRefinedValues_def wrappedOptions_def
      withDefault_def getProp_def isArray_def isBoolean_def attributesOK_def elements_def
      checkAttribute_def isPlainObject_def isString_def isUndefined_def isFunction_def
      assignProperty_def Let_def)

text \<open>
  An attribute named \<^verbatim>\<open>__proto__\<close> adds no property to \<^verbatim>\<open>attributesObj\<close>: the assignment makes
  the attribute its prototype.
\<close>

lemma proto_factory:
  "map_sum id attributesObj
     (connectCurrentRefinedValues
        (JObject [(''attributes'', JArray [JObject [(''name'', JString ''__proto__'')]])])
      :: error + int widget) =
     Inr \<lparr>ownProperties = [],
          prototypeSet = Some (JObject [(''name'', JString ''__proto__'')])\<rparr>"
  by (simp add: connectCurrentRefinedValues_def
      withDefault_def getProp_def isArray_def isBoolean_def attributesOK_def elements_def
      checkAttribute_def isPlainObject_def isString_def isUndefined_def isFunction_def
      assignProperty_def isObjectOrNull_def Let_def)

section \<open>Properties of the rendering passes\<close>

subsection \<open>The two methods as one pass\<close>

lemma render_renderingPass:
  "render lib widget results helper state createURL isi w =
     renderingPass False lib widget (SearchResults results) helper state createURL isi w"
  by (simp add: render_def renderingPass_def)

lemma init_renderingPass:
  "init lib widget helper createURL isi w =
     (case bindFunction (ClearRefinementsAndSearch helper (restrictedTo widget)) w of
        (f, w1) \<Rightarrow>
          renderingPass True lib (widget\<lparr>this_clearRefinementsAndSearch := Some f\<rparr>)
            EmptyObject helper (helperState w1 helper) createURL isi w1)"
  by (simp add: init_def renderingPass_def bindFunction_def Let_def
      cong: prod.case_cong sum.case_cong)

subsection \<open>Mapping the two callbacks\<close>

lemma clearRefinementFromState_effect:
  assumes "clearRefinementFromState lib state r w = (res, w1)"
  shows "nextFunctionId w1 = nextFunctionId w \<and> helperState w1 = helperState w \<and>
         (\<exists>evs. trace w1 = trace w @ evs \<and> list_all isStateCall evs)"
  using assms
  by (auto simp: clearRefinementFromState_def callState_def split: if_splits)

lemma fst_clearRefinementFromState:
  "fst (clearRefinementFromState lib state r w) = fst (clearRefinementFromState lib state r w0)"
  by (simp add: clearRefinementFromState_def callState_def)


lemma clearRefinementURL_Inr:
  assumes "clearRefinementURL lib createURL state r w = (Inr u, w1)"
  shows "\<exists>s. fst (clearRefinementFromState lib state r w0) = Inr s \<and> u = createURL s"
proof -
  obtain res w2 where c: "clearRefinementFromState lib state r w = (res, w2)"
    by (cases "clearRefinementFromState lib state r w")
  with assms obtain s where "res = Inr s" "u = createURL s"
    by (auto simp: clearRefinementURL_def split: sum.splits)
  with c have "fst (clearRefinementFromState lib state r w) = Inr s \<and> u = createURL s" by simp
  then show ?thesis using fst_clearRefinementFromState[of lib state r w w0] by auto
qed

lemma clearRefinementURL_effect:
  assumes "clearRefinementURL lib createURL state r w = (res, w1)"
  shows "nextFunctionId w1 = nextFunctionId w \<and> helperState w1 = helperState w \<and>
         (\<exists>evs. trace w1 = trace w @ evs \<and> list_all isStateCall evs)"
proof -
  obtain res2 w2 where c: "clearRefinementFromState lib state r w = (res2, w2)"
    by (cases "clearRefinementFromState lib state r w")
  with assms have "w1 = w2" by (auto simp: clearRefinementURL_def split: sum.splits)
  with clearRefinementFromState_effect[OF c] show ?thesis by simp
qed


lemma arrayMap_clearRefinementURL:
  assumes "arrayMap (clearRefinementURL lib createURL state) rs w = (res, w1)"
  shows "nextFunctionId w1 = nextFunctionId w \<and> helperState w1 = helperState w \<and>
         (\<exists>evs. trace w1 = trace w @ evs \<and> list_all isStateCall evs) \<and>
         (\<forall>urls. res = Inr urls \<longrightarrow>
            length urls = length rs \<and>
            (\<forall>i<length rs. \<exists>s. fst (clearRefinementFromState lib state (rs ! i) w0) = Inr s \<and>
                              urls ! i = createURL s))"
  using assms
proof (induction rs arbitrary: w res w1)
  case Nil
  then show ?case by auto
next
  case (Cons r rs)
  obtain res2 w2 where c: "clearRefinementURL lib createURL state r w = (res2, w2)"
    by (cases "clearRefinementURL lib createURL state r w")
  note e1 = clearRefinementURL_effect[OF c]
  show ?case
  proof (cases res2)
    case (Inl e)
    with Cons.prems c have "res = Inl e" "w1 = w2" by auto
    with e1 show ?thesis by auto
  next
    case (Inr u)
    obtain res3 w3 where m: "arrayMap (clearRefinementURL lib createURL state) rs w2 = (res3, w3)"
      by (cases "arrayMap (clearRefinementURL lib createURL state) rs w2")
    note IH = Cons.IH[OF m]
    from Cons.prems c Inr m have w13: "w1 = w3"
      and res: "res = (case res3 of Inl e \<Rightarrow> Inl e | Inr us \<Rightarrow> Inr (u # us))"
      by (auto split: sum.splits)
    from e1 IH obtain evs1 evs2 where
      "trace w2 = trace w @ evs1" "list_all isStateCall evs1"
      "trace w3 = trace w2 @ evs2" "list_all isStateCall evs2" by blast
    then have tr: "trace w3 = trace w @ (evs1 @ evs2) \<and> list_all isStateCall (evs1 @ evs2)"
      by simp
    from c Inr obtain s where s: "fst (clearRefinementFromState lib state r w0) = Inr s"
      "u = createURL s"
      using clearRefinementURL_Inr[of lib createURL state r w u w2 w0] by auto
    have urls: "\<forall>urls. res = Inr urls \<longrightarrow>
            length urls = length (r # rs) \<and>
            (\<forall>i<length (r # rs).
               \<exists>s. fst (clearRefinementFromState lib state ((r # rs) ! i) w0) = Inr s \<and>
                   urls ! i = createURL s)"
    proof (intro allI impI)
      fix urls assume "res = Inr urls"
      with res obtain us where us: "res3 = Inr us" "urls = u # us"
        by (auto split: sum.splits)
      with IH have l: "length us = length rs"
        and a: "\<forall>i<length rs. \<exists>s. fst (clearRefinementFromState lib state (rs ! i) w0) = Inr s \<and>
                              us ! i = createURL s" by auto
      show "length urls = length (r # rs) \<and>
            (\<forall>i<length (r # rs).
               \<exists>s. fst (clearRefinementFromState lib state ((r # rs) ! i) w0) = Inr s \<and>
                   urls ! i = createURL s)"
      proof (intro conjI allI impI)
        show "length urls = length (r # rs)" using us l by simp
      next
        fix i assume "i < length (r # rs)"
        then show "\<exists>s. fst (clearRefinementFromState lib state ((r # rs) ! i) w0) = Inr s \<and>
                   urls ! i = createURL s"
          using s a us by (cases i) auto
      qed
    qed
    from e1 IH tr urls w13 show ?thesis by (metis)
  qed
qed


lemma arrayMap_clearRefinementClick:
  "\<exists>fs. arrayMap (clearRefinementClick helper) rs w =
          (Inr fs, w\<lparr>nextFunctionId := nextFunctionId w + length rs,
                     trace := trace w @ map BindCall fs\<rparr>) \<and>
        length fs = length rs \<and>
        (\<forall>i<length rs. fs ! i = BoundFunction (nextFunctionId w + i) (ClearRefinement helper (rs ! i)))"
proof (induction rs arbitrary: w)
  case Nil
  then show ?case by simp
next
  case (Cons r rs)
  let ?f = "BoundFunction (nextFunctionId w) (ClearRefinement helper r)"
  let ?w1 = "w\<lparr>nextFunctionId := Suc (nextFunctionId w), trace := trace w @ [BindCall ?f]\<rparr>"
  have c: "clearRefinementClick helper r w = (Inr ?f, ?w1)"
    by (simp add: clearRefinementClick_def bindFunction_def)
  from Cons[of ?w1] obtain fs where
    m: "arrayMap (clearRefinementClick helper) rs ?w1 =
          (Inr fs, ?w1\<lparr>nextFunctionId := nextFunctionId ?w1 + length rs,
                     trace := trace ?w1 @ map BindCall fs\<rparr>)"
    and l: "length fs = length rs"
    and a: "\<forall>i<length rs. fs ! i = BoundFunction (nextFunctionId ?w1 + i) (ClearRefinement helper (rs ! i))"
    by blast
  have "arrayMap (clearRefinementClick helper) (r # rs) w =
          (Inr (?f # fs), w\<lparr>nextFunctionId := nextFunctionId w + length (r # rs),
                     trace := trace w @ map BindCall (?f # fs)\<rparr>)"
    using c m by simp
  moreover have "length (?f # fs) = length (r # rs)" using l by simp
  moreover have "\<forall>i<length (r # rs). (?f # fs) ! i =
      BoundFunction (nextFunctionId w + i) (ClearRefinement helper ((r # rs) ! i))"
  proof (intro allI impI)
    fix i assume "i < length (r # rs)"
    then show "(?f # fs) ! i =
      BoundFunction (nextFunctionId w + i) (ClearRefinement helper ((r # rs) ! i))"
      using a by (cases i) auto
  qed
  ultimately show ?case by blast
qed

subsection \<open>What one pass adds to the trace\<close>

lemma isStateCall_other: "isStateCall e \<Longrightarrow> \<not> isRenderCall e \<and> \<not> isClearAllBind e"
  by (cases e) auto

lemma filter_stateCalls:
  "list_all isStateCall evs \<Longrightarrow> filter isRenderCall evs = [] \<and> filter isClearAllBind evs = []"
  by (induction evs) (auto simp: isStateCall_other)

lemma filter_clickBinds:
  assumes "\<forall>i<length fs. \<exists>k r. fs ! i = BoundFunction k (ClearRefinement helper r)"
  shows "filter isRenderCall (map BindCall fs) = [] \<and>
         filter isClearAllBind (map BindCall fs) = []"
proof -
  have "\<forall>f\<in>set fs. \<exists>k r. f = BoundFunction k (ClearRefinement helper r)"
    using assms by (metis in_set_conv_nth)
  then have "\<forall>e\<in>set (map BindCall fs). \<not> isRenderCall e \<and> \<not> isClearAllBind e"
    by auto
  then show ?thesis by (simp add: filter_empty_conv)
qed

lemma renderingPass_outcome:
  fixes lib :: "('res, 'st, 'n) collaborators" and w :: "('st, 'n) world"
  assumes "renderingPass first lib widget results helper state createURL isi w = (res, widget1, w1)"
  shows "widget1 = widget \<and> helperState w1 = helperState w \<and>
    (\<exists>evs. trace w1 = trace w @ evs \<and> filter isClearAllBind evs = [] \<and>
       (\<forall>e. res = Inl e \<longrightarrow> filter isRenderCall evs = []) \<and>
       (res = Inr () \<longrightarrow>
          (\<exists>urls clicks.
             filter isRenderCall evs =
               [RenderCall
                  [(''attributes'', VObject (attributesObj widget)),
                   (''clearAllClick'', cachedClearAll widget),
                   (''clearAllURL'',
                      VString (createURL
                        (clearRefinementsFromState lib state (restrictedTo widget)))),
                   (''clearRefinementClicks'', VFunctions clicks),
                   (''clearRefinementURLs'', VStrings urls),
                   (''refinements'',
                      VRefinements
                        (getFilteredRefinements lib results state (attributeNames widget)
                           (toBoolean (onlyListedAttributes widget)))),
                   (''instantSearchInstance'', VInstance isi),
                   (''widgetParams'', VValue (widgetParams widget))]
                  first] \<and>
             length urls =
               length (getFilteredRefinements lib results state (attributeNames widget)
                         (toBoolean (onlyListedAttributes widget))) \<and>
             length clicks =
               length (getFilteredRefinements lib results state (attributeNames widget)
                         (toBoolean (onlyListedAttributes widget))) \<and>
             (\<forall>i<length (getFilteredRefinements lib results state (attributeNames widget)
                           (toBoolean (onlyListedAttributes widget))).
                 describesRefinement lib createURL helper state w0
                   (getFilteredRefinements lib results state (attributeNames widget)
                      (toBoolean (onlyListedAttributes widget)) ! i)
                   (urls ! i) (clicks ! i)))))"
proof -
  let ?refs = "getFilteredRefinements lib results state (attributeNames widget)
                 (toBoolean (onlyListedAttributes widget))"
  obtain r2 w2 where u: "arrayMap (clearRefinementURL lib createURL state) ?refs w = (r2, w2)"
    by (cases "arrayMap (clearRefinementURL lib createURL state) ?refs w")
  from arrayMap_clearRefinementURL[OF u, of w0] obtain evs1 where
    n2: "nextFunctionId w2 = nextFunctionId w" and h2: "helperState w2 = helperState w"
    and t2: "trace w2 = trace w @ evs1" and s2: "list_all isStateCall evs1"
    and urls: "\<forall>urls. r2 = Inr urls \<longrightarrow>
            length urls = length ?refs \<and>
            (\<forall>i<length ?refs. \<exists>s. fst (clearRefinementFromState lib state (?refs ! i) w0) = Inr s \<and>
                              urls ! i = createURL s)"
    by blast
  show ?thesis
  proof (cases r2)
    case (Inl e)
    have "renderingPass first lib widget results helper state createURL isi w =
            (Inl e, widget, w2)"
      using u Inl by (simp add: renderingPass_def Let_def)
    with assms have "res = Inl e" "widget1 = widget" "w1 = w2" by (metis Pair_inject)+
    with h2 t2 filter_stateCalls[OF s2] show ?thesis by auto
  next
    case (Inr us)
    from arrayMap_clearRefinementClick[of helper ?refs w2] obtain fs where
      c: "arrayMap (clearRefinementClick helper) ?refs w2 =
            (Inr fs, w2\<lparr>nextFunctionId := nextFunctionId w2 + length ?refs,
                       trace := trace w2 @ map BindCall fs\<rparr>)"
      and lf: "length fs = length ?refs"
      and af: "\<forall>i<length ?refs.
                 fs ! i = BoundFunction (nextFunctionId w2 + i) (ClearRefinement helper (?refs ! i))"
      by blast
    let ?vm = "[(''attributes'', VObject (attributesObj widget)),
                   (''clearAllClick'', cachedClearAll widget),
                   (''clearAllURL'',
                      VString (createURL
                        (clearRefinementsFromState lib state (restrictedTo widget)))),
                   (''clearRefinementClicks'', VFunctions fs),
                   (''clearRefinementURLs'', VStrings us),
                   (''refinements'', VRefinements ?refs),
                   (''instantSearchInstance'', VInstance isi),
                   (''widgetParams'', VValue (widgetParams widget))]"
    have "renderingPass first lib widget results helper state createURL isi w =
            (Inr (), widget,
             w2\<lparr>nextFunctionId := nextFunctionId w2 + length ?refs,
                trace := trace w2 @ map BindCall fs @ [RenderCall ?vm first]\<rparr>)"
      using u Inr c by (simp add: renderingPass_def Let_def)
    with assms have res: "res = Inr ()" and wd: "widget1 = widget"
      and w1: "w1 = w2\<lparr>nextFunctionId := nextFunctionId w2 + length ?refs,
                       trace := trace w2 @ map BindCall fs @ [RenderCall ?vm first]\<rparr>"
      by (metis Pair_inject)+
    let ?evs = "evs1 @ map BindCall fs @ [RenderCall ?vm first]"
    have tr: "trace w1 = trace w @ ?evs" using w1 t2 by simp
    have fb: "filter isRenderCall (map BindCall fs) = [] \<and>
              filter isClearAllBind (map BindCall fs) = []"
      using af lf by (intro filter_clickBinds[of fs helper]) auto
    have f1: "filter isClearAllBind ?evs = []"
      using filter_stateCalls[OF s2] fb by simp
    have f2: "filter isRenderCall ?evs = [RenderCall ?vm first]"
      using filter_stateCalls[OF s2] fb by simp
    have lu: "length us = length ?refs" using urls Inr by simp
    have d: "\<forall>i<length ?refs.
               describesRefinement lib createURL helper state w0 (?refs ! i) (us ! i) (fs ! i)"
    proof (intro allI impI)
      fix i assume i: "i < length ?refs"
      with urls Inr obtain s where
        "fst (clearRefinementFromState lib state (?refs ! i) w0) = Inr s" "us ! i = createURL s"
        by blast
      moreover from af i have
        "fs ! i = BoundFunction (nextFunctionId w2 + i) (ClearRefinement helper (?refs ! i))"
        by simp
      ultimately show
        "describesRefinement lib createURL helper state w0 (?refs ! i) (us ! i) (fs ! i)"
        by (simp add: describesRefinement_def)
    qed
    have hs: "helperState w1 = helperState w" using w1 h2 by simp
    from wd hs tr f1 f2 lu lf d res show ?thesis by blast
  qed
qed


lemma renderingPass_renderCall:
  fixes lib :: "('res, 'st, 'n) collaborators" and w :: "('st, 'n) world"
  assumes p: "renderingPass first lib widget results helper state createURL isi w = (res, widget1, w1)"
    and m: "RenderCall vm b \<in> set (newEvents w w1)"
  shows "b = first \<and>
         map fst vm =
           [''attributes'', ''clearAllClick'', ''clearAllURL'', ''clearRefinementClicks'',
            ''clearRefinementURLs'', ''refinements'', ''instantSearchInstance'',
            ''widgetParams''] \<and>
         map_of vm ''clearAllClick'' = Some (cachedClearAll widget) \<and>
         vmRefinements vm =
           getFilteredRefinements lib results state (attributeNames widget)
             (toBoolean (onlyListedAttributes widget)) \<and>
         indexAligned lib createURL helper state w0 vm"
proof -
  let ?refs = "getFilteredRefinements lib results state (attributeNames widget)
                 (toBoolean (onlyListedAttributes widget))"
  from renderingPass_outcome[OF p, of w0] obtain evs where
    tr: "trace w1 = trace w @ evs"
    and no: "\<forall>e. res = Inl e \<longrightarrow> filter isRenderCall evs = []"
    and yes: "res = Inr () \<longrightarrow>
          (\<exists>urls clicks.
             filter isRenderCall evs =
               [RenderCall
                  [(''attributes'', VObject (attributesObj widget)),
                   (''clearAllClick'', cachedClearAll widget),
                   (''clearAllURL'',
                      VString (createURL
                        (clearRefinementsFromState lib state (restrictedTo widget)))),
                   (''clearRefinementClicks'', VFunctions clicks),
                   (''clearRefinementURLs'', VStrings urls),
                   (''refinements'', VRefinements ?refs),
                   (''instantSearchInstance'', VInstance isi),
                   (''widgetParams'', VValue (widgetParams widget))]
                  first] \<and>
             length urls = length ?refs \<and>
             length clicks = length ?refs \<and>
             (\<forall>i<length ?refs.
                 describesRefinement lib createURL helper state w0 (?refs ! i)
                   (urls ! i) (clicks ! i)))"
    by blast
  from m tr have "RenderCall vm b \<in> set evs" by (simp add: newEvents_def)
  then have mem: "RenderCall vm b \<in> set (filter isRenderCall evs)" by simp
  have "res = Inr ()"
  proof (cases res)
    case (Inl e)
    with no mem show ?thesis by simp
  next
    case (Inr u)
    then show ?thesis by simp
  qed
  with yes obtain urls clicks where
    f: "filter isRenderCall evs =
               [RenderCall
                  [(''attributes'', VObject (attributesObj widget)),
                   (''clearAllClick'', cachedClearAll widget),
                   (''clearAllURL'',
                      VString (createURL
                        (clearRefinementsFromState lib state (restrictedTo widget)))),
                   (''clearRefinementClicks'', VFunctions clicks),
                   (''clearRefinementURLs'', VStrings urls),
                   (''refinements'', VRefinements ?refs),
                   (''instantSearchInstance'', VInstance isi),
                   (''widgetParams'', VValue (widgetParams widget))]
                  first]"
    and l: "length urls = length ?refs" "length clicks = length ?refs"
    and d: "\<forall>i<length ?refs.
                 describesRefinement lib createURL helper state w0 (?refs ! i)
                   (urls ! i) (clicks ! i)"
    by blast
  from mem f have vm: "vm = [(''attributes'', VObject (attributesObj widget)),
                   (''clearAllClick'', cachedClearAll widget),
                   (''clearAllURL'',
                      VString (createURL
                        (clearRefinementsFromState lib state (restrictedTo widget)))),
                   (''clearRefinementClicks'', VFunctions clicks),
                   (''clearRefinementURLs'', VStrings urls),
                   (''refinements'', VRefinements ?refs),
                   (''instantSearchInstance'', VInstance isi),
                   (''widgetParams'', VValue (widgetParams widget))]"
    and b: "b = first" by simp_all
  have r: "vmRefinements vm = ?refs" by (simp add: vm vmRefinements_def)
  have u: "vmClearRefinementURLs vm = urls" by (simp add: vm vmClearRefinementURLs_def)
  have c: "vmClearRefinementClicks vm = clicks" by (simp add: vm vmClearRefinementClicks_def)
  have "indexAligned lib createURL helper state w0 vm"
    unfolding indexAligned_def r u c using l d by simp
  moreover have "map fst vm =
           [''attributes'', ''clearAllClick'', ''clearAllURL'', ''clearRefinementClicks'',
            ''clearRefinementURLs'', ''refinements'', ''instantSearchInstance'',
            ''widgetParams'']" by (simp add: vm)
  moreover have "map_of vm ''clearAllClick'' = Some (cachedClearAll widget)" by (simp add: vm)
  ultimately show ?thesis using b r by simp
qed

lemma init_split:
  fixes lib :: "('res, 'st, 'n) collaborators" and w :: "('st, 'n) world"
  assumes "init lib widget helper createURL isi w = (res, widget1, w1)"
  shows "renderingPass True lib
           (widget\<lparr>this_clearRefinementsAndSearch :=
              Some (BoundFunction (nextFunctionId w)
                      (ClearRefinementsAndSearch helper (restrictedTo widget)))\<rparr>)
           EmptyObject helper (helperState w helper) createURL isi
           (w\<lparr>nextFunctionId := Suc (nextFunctionId w),
              trace := trace w @
                [BindCall (BoundFunction (nextFunctionId w)
                             (ClearRefinementsAndSearch helper (restrictedTo widget)))]\<rparr>)
         = (res, widget1, w1)"
  using assms by (simp add: init_renderingPass bindFunction_def)

lemma init_newEvents:
  fixes lib :: "('res, 'st, 'n) collaborators" and w :: "('st, 'n) world"
  assumes "init lib widget helper createURL isi w = (res, widget1, w1)"
  shows "newEvents w w1 =
           BindCall (BoundFunction (nextFunctionId w)
                       (ClearRefinementsAndSearch helper (restrictedTo widget)))
           # newEvents
               (w\<lparr>nextFunctionId := Suc (nextFunctionId w),
                  trace := trace w @
                    [BindCall (BoundFunction (nextFunctionId w)
                                 (ClearRefinementsAndSearch helper (restrictedTo widget)))]\<rparr>)
               w1"
proof -
  from renderingPass_outcome[OF init_split[OF assms], of w] obtain evs where
    "trace w1 = (trace w @
                [BindCall (BoundFunction (nextFunctionId w)
                             (ClearRefinementsAndSearch helper (restrictedTo widget)))]) @ evs"
    by auto
  then show ?thesis by (simp add: newEvents_def)
qed

text \<open>
  C6. In every options object that \<open>init\<close> or \<open>render\<close> passes to the rendering function,
  \<open>refinements\<close>, \<open>clearRefinementURLs\<close> and \<open>clearRefinementClicks\<close> have the same length, and
  at every index the URL is the one built from the state with that refinement cleared and
  the function is \<open>clearRefinement\<close> bound to the helper and that refinement.
\<close>

theorem view_model_index_aligned:
  fixes lib :: "('res, 'st, 'n) collaborators" and w :: "('st, 'n) world"
  shows
  "(\<forall>vm first.
      RenderCall vm first \<in>
        set (newEvents w (snd (snd (init lib widget helper createURL isi w)))) \<longrightarrow>
      indexAligned lib createURL helper (helperState w helper) w vm) \<and>
   (\<forall>vm first.
      RenderCall vm first \<in>
        set (newEvents w
               (snd (snd (render lib widget results helper state createURL isi w)))) \<longrightarrow>
      indexAligned lib createURL helper state w vm)"
proof (intro conjI allI impI)
  fix vm first
  assume m: "RenderCall vm first \<in>
        set (newEvents w (snd (snd (init lib widget helper createURL isi w))))"
  obtain res widget1 w1 where i: "init lib widget helper createURL isi w = (res, widget1, w1)"
    by (cases "init lib widget helper createURL isi w")
  with m have "RenderCall vm first \<in> set (newEvents w w1)" by simp
  then have "RenderCall vm first \<in> set (newEvents
               (w\<lparr>nextFunctionId := Suc (nextFunctionId w),
                  trace := trace w @
                    [BindCall (BoundFunction (nextFunctionId w)
                                 (ClearRefinementsAndSearch helper (restrictedTo widget)))]\<rparr>)
               w1)"
    by (simp add: init_newEvents[OF i])
  from renderingPass_renderCall[OF init_split[OF i] this, of w]
  show "indexAligned lib createURL helper (helperState w helper) w vm" by simp
next
  fix vm first
  assume m: "RenderCall vm first \<in>
        set (newEvents w (snd (snd (render lib widget results helper state createURL isi w))))"
  obtain res widget1 w1 where
    r: "render lib widget results helper state createURL isi w = (res, widget1, w1)"
    by (cases "render lib widget results helper state createURL isi w")
  with m have m1: "RenderCall vm first \<in> set (newEvents w w1)" by simp
  from r have "renderingPass False lib widget (SearchResults results) helper state createURL isi w
                 = (res, widget1, w1)"
    by (simp add: render_renderingPass)
  from renderingPass_renderCall[OF this m1, of w]
  show "indexAligned lib createURL helper state w vm" by simp
qed

text \<open>
  C7. Every options object that \<open>init\<close> or \<open>render\<close> passes to the rendering function has
  exactly the properties \<open>attributes\<close>, \<open>clearAllClick\<close>, \<open>clearAllURL\<close>,
  \<open>clearRefinementClicks\<close>, \<open>clearRefinementURLs\<close>, \<open>refinements\<close>, \<open>instantSearchInstance\<close> and
  \<open>widgetParams\<close>; it has no property \<open>clearAllPosition\<close>.
\<close>

theorem view_model_fields:
  fixes lib :: "('res, 'st, 'n) collaborators" and w :: "('st, 'n) world"
  shows
  "(\<forall>vm first.
      RenderCall vm first \<in>
        set (newEvents w (snd (snd (init lib widget helper createURL isi w)))) \<or>
      RenderCall vm first \<in>
        set (newEvents w
               (snd (snd (render lib widget results helper state createURL isi w)))) \<longrightarrow>
      map fst vm =
        [''attributes'', ''clearAllClick'', ''clearAllURL'', ''clearRefinementClicks'',
         ''clearRefinementURLs'', ''refinements'', ''instantSearchInstance'',
         ''widgetParams''] \<and>
      map_of vm ''clearAllPosition'' = None)"
proof (intro allI impI)
  fix vm first
  assume m: "RenderCall vm first \<in>
        set (newEvents w (snd (snd (init lib widget helper createURL isi w)))) \<or>
      RenderCall vm first \<in>
        set (newEvents w
               (snd (snd (render lib widget results helper state createURL isi w))))"
  have keys: "map fst vm =
        [''attributes'', ''clearAllClick'', ''clearAllURL'', ''clearRefinementClicks'',
         ''clearRefinementURLs'', ''refinements'', ''instantSearchInstance'',
         ''widgetParams'']"
    using m
  proof
    assume mi: "RenderCall vm first \<in>
        set (newEvents w (snd (snd (init lib widget helper createURL isi w))))"
    obtain res widget1 w1 where i: "init lib widget helper createURL isi w = (res, widget1, w1)"
      by (cases "init lib widget helper createURL isi w")
    with mi have "RenderCall vm first \<in> set (newEvents w w1)" by simp
    then have "RenderCall vm first \<in> set (newEvents
               (w\<lparr>nextFunctionId := Suc (nextFunctionId w),
                  trace := trace w @
                    [BindCall (BoundFunction (nextFunctionId w)
                                 (ClearRefinementsAndSearch helper (restrictedTo widget)))]\<rparr>)
               w1)"
      by (simp add: init_newEvents[OF i])
    from renderingPass_renderCall[OF init_split[OF i] this, of w] show ?thesis by simp
  next
    assume mr: "RenderCall vm first \<in>
        set (newEvents w (snd (snd (render lib widget results helper state createURL isi w))))"
    obtain res widget1 w1 where
      r: "render lib widget results helper state createURL isi w = (res, widget1, w1)"
      by (cases "render lib widget results helper state createURL isi w")
    with mr have m1: "RenderCall vm first \<in> set (newEvents w w1)" by simp
    from r have "renderingPass False lib widget (SearchResults results) helper state createURL isi w
                 = (res, widget1, w1)"
      by (simp add: render_renderingPass)
    from renderingPass_renderCall[OF this m1, of w] show ?thesis by simp
  qed
  have "''clearAllPosition'' \<notin> fst ` set vm"
  proof -
    have "fst ` set vm = set (map fst vm)" by simp
    then show ?thesis unfolding keys by simp
  qed
  then have "map_of vm ''clearAllPosition'' = None" by (simp add: map_of_eq_None_iff)
  with keys show "map fst vm =
        [''attributes'', ''clearAllClick'', ''clearAllURL'', ''clearRefinementClicks'',
         ''clearRefinementURLs'', ''refinements'', ''instantSearchInstance'',
         ''widgetParams''] \<and>
      map_of vm ''clearAllPosition'' = None" by simp
qed

subsection \<open>The sample run\<close>

lemma sample_init:
  "init listLib sampleWidget 0 sampleURL 7 emptyWorld =
     (Inr (),
      sampleWidget\<lparr>this_clearRefinementsAndSearch :=
        Some (BoundFunction 0 (ClearRefinementsAndSearch 0 []))\<rparr>,
      \<lparr>trace =
         [BindCall (BoundFunction 0 (ClearRefinementsAndSearch 0 [])),
          StateCall twoColours (RemoveFacetRefinement ''color'' ''blue''),
          StateCall twoColours (RemoveFacetRefinement ''color'' ''red''),
          BindCall (BoundFunction 1
            (ClearRefinement 0 (refinementOf ''facet'' ''color'' ''blue''))),
          BindCall (BoundFunction 2
            (ClearRefinement 0 (refinementOf ''facet'' ''color'' ''red''))),
          RenderCall sampleInitOptions True],
       nextFunctionId = 3,
       helperState = (\<lambda>helper. twoColours)\<rparr>)"
  by (simp add: init_def bindFunction_def emptyWorld_def sampleWidget_def listLib_def
      getFilteredRefinements_def otherAttributeNames_def collectOtherAttributeName_def
      twoColours_def refinementOf_def indexOf_def arraySort_def compareRefinements_def
      getRestrictedIndexForSort_def isEmpty_def Let_def clearRefinementURL_def
      clearRefinementFromState_def callState_def clearRefinementClick_def sampleURL_def
      cachedClearAll_def sampleInitOptions_def)

lemma sample_render:
  "render listLib initialisedWidget () 0 [refinementOf ''facet'' ''color'' ''blue'']
     sampleURL 7 worldAfterInit =
     (Inr (), initialisedWidget,
      worldAfterInit\<lparr>trace := trace worldAfterInit @
         [StateCall [refinementOf ''facet'' ''color'' ''blue'']
            (RemoveFacetRefinement ''color'' ''blue''),
          BindCall (BoundFunction 3
            (ClearRefinement 0 (refinementOf ''facet'' ''color'' ''blue''))),
          RenderCall sampleRenderOptions False],
        nextFunctionId := 4\<rparr>)"
  unfolding initialisedWidget_def worldAfterInit_def sample_init
  by (simp add: render_def bindFunction_def sampleWidget_def listLib_def
      getFilteredRefinements_def otherAttributeNames_def collectOtherAttributeName_def
      refinementOf_def indexOf_def arraySort_def compareRefinements_def
      getRestrictedIndexForSort_def isEmpty_def Let_def clearRefinementURL_def
      clearRefinementFromState_def callState_def clearRefinementClick_def sampleURL_def
      cachedClearAll_def sampleRenderOptions_def)

lemma sample_init_events:
  "newEvents emptyWorld worldAfterInit =
     [BindCall (BoundFunction 0 (ClearRefinementsAndSearch 0 [])),
      StateCall twoColours (RemoveFacetRefinement ''color'' ''blue''),
      StateCall twoColours (RemoveFacetRefinement ''color'' ''red''),
      BindCall (BoundFunction 1
        (ClearRefinement 0 (refinementOf ''facet'' ''color'' ''blue''))),
      BindCall (BoundFunction 2
        (ClearRefinement 0 (refinementOf ''facet'' ''color'' ''red''))),
      RenderCall sampleInitOptions True]"
  unfolding worldAfterInit_def sample_init by (simp add: newEvents_def emptyWorld_def)

lemma sample_render_events:
  "newEvents worldAfterInit
     (snd (snd (render listLib initialisedWidget () 0
                  [refinementOf ''facet'' ''color'' ''blue''] sampleURL 7 worldAfterInit))) =
     [StateCall [refinementOf ''facet'' ''color'' ''blue'']
        (RemoveFacetRefinement ''color'' ''blue''),
      BindCall (BoundFunction 3
        (ClearRefinement 0 (refinementOf ''facet'' ''color'' ''blue''))),
      RenderCall sampleRenderOptions False]"
  unfolding sample_render by (simp add: newEvents_def)

theorem view_model_index_aligned_witness:
  "RenderCall sampleInitOptions True \<in> set (newEvents emptyWorld worldAfterInit) \<and>
   indexAligned listLib sampleURL 0 twoColours emptyWorld sampleInitOptions \<and>
   RenderCall sampleRenderOptions False \<in>
     set (newEvents worldAfterInit
            (snd (snd (render listLib initialisedWidget () 0
                         [refinementOf ''facet'' ''color'' ''blue''] sampleURL 7
                         worldAfterInit)))) \<and>
   indexAligned listLib sampleURL 0 [refinementOf ''facet'' ''color'' ''blue''] worldAfterInit
     sampleRenderOptions"
proof -
  have m1: "RenderCall sampleInitOptions True \<in> set (newEvents emptyWorld worldAfterInit)"
    unfolding sample_init_events by simp
  have m2: "RenderCall sampleRenderOptions False \<in>
     set (newEvents worldAfterInit
            (snd (snd (render listLib initialisedWidget () 0
                         [refinementOf ''facet'' ''color'' ''blue''] sampleURL 7
                         worldAfterInit))))"
    unfolding sample_render_events by simp
  have h: "helperState emptyWorld 0 = twoColours" by (simp add: emptyWorld_def)
  have a1: "indexAligned listLib sampleURL 0 twoColours emptyWorld sampleInitOptions"
    using view_model_index_aligned
      [where w = emptyWorld and lib = listLib and widget = sampleWidget and helper = 0
         and createURL = sampleURL and isi = 7,
       THEN conjunct1, rule_format, of sampleInitOptions True]
      m1
    unfolding worldAfterInit_def h by simp
  have a2: "indexAligned listLib sampleURL 0 [refinementOf ''facet'' ''color'' ''blue'']
              worldAfterInit sampleRenderOptions"
    using view_model_index_aligned
      [where w = worldAfterInit and lib = listLib and widget = initialisedWidget
         and results = "()" and helper = 0
         and state = "[refinementOf ''facet'' ''color'' ''blue'']"
         and createURL = sampleURL and isi = 7,
       THEN conjunct2, rule_format, of sampleRenderOptions False]
      m2
    by simp
  from m1 a1 m2 a2 show ?thesis by simp
qed

theorem view_model_fields_witness:
  "RenderCall sampleInitOptions True \<in> set (newEvents emptyWorld worldAfterInit) \<and>
   map fst sampleInitOptions =
     [''attributes'', ''clearAllClick'', ''clearAllURL'', ''clearRefinementClicks'',
      ''clearRefinementURLs'', ''refinements'', ''instantSearchInstance'', ''widgetParams''] \<and>
   map_of sampleInitOptions ''clearAllPosition'' = None"
proof -
  have m1: "RenderCall sampleInitOptions True \<in> set (newEvents emptyWorld worldAfterInit)"
    unfolding sample_init_events by simp
  then have "RenderCall sampleInitOptions True \<in>
        set (newEvents emptyWorld (snd (snd (init listLib sampleWidget 0 sampleURL 7 emptyWorld))))"
    by (simp add: worldAfterInit_def)
  with view_model_fields
      [where w = emptyWorld and lib = listLib and widget = sampleWidget and helper = 0
         and createURL = sampleURL and isi = 7,
       rule_format, of sampleInitOptions True]
  have "map fst sampleInitOptions =
     [''attributes'', ''clearAllClick'', ''clearAllURL'', ''clearRefinementClicks'',
      ''clearRefinementURLs'', ''refinements'', ''instantSearchInstance'', ''widgetParams''] \<and>
   map_of sampleInitOptions ''clearAllPosition'' = None"
    by blast
  with m1 show ?thesis by simp
qed

subsection \<open>The first pass and the later ones\<close>





section \<open>Properties of the in-place sort\<close>










text \<open>
  The condition on \<open>getRefinements\<close> is needed: were the array it returns one that the
  store already holds, the sort would reorder that array.
\<close>

lemma shared_array_is_reordered:
  "cells sampleStore 0 =
     Some [refinementOf ''facet'' ''color'' ''red'', refinementOf ''facet'' ''color'' ''blue''] \<and>
   cells
     (snd (getFilteredRefinements_inStore
             (\<lambda>(results :: unit resultsArg) (state :: int refinement list) h. (0, h))
             EmptyObject twoColours [JString ''color''] False sampleStore)) 0 =
     Some [refinementOf ''facet'' ''color'' ''blue'', refinementOf ''facet'' ''color'' ''red'']"
  by (simp add: getFilteredRefinements_inStore_def sampleStore_def readArray_def
      sortInPlace_def otherAttributeNames_def collectOtherAttributeName_def twoColours_def
      refinementOf_def indexOf_def arraySort_def compareRefinements_def
      getRestrictedIndexForSort_def isEmpty_def Let_def)

end
